theory Spec2Isabelle
  imports
    Main
    "HOL-Library.Char_ord"
    "HOL-Library.List_Lexorder"
    "HOL-Library.Sublist"
    "HOL-Library.Word"
begin

unbundle bit_operations_syntax

section \<open>JavaScript strings and values\<close>

text \<open>
  Strings are sequences of code units. The order \<open><\<close> on \<^typ>\<open>string\<close> is the
  lexicographic order on code units, which is how JavaScript compares two strings with
  \<^verbatim>\<open><\<close> and \<^verbatim>\<open>>\<close> and how \<^verbatim>\<open>Array.prototype.sort\<close> orders
  strings by default. Case mapping acts on the ASCII letters, where an upper-case letter and
  its lower-case letter differ in the bit of value 32 (\<open>digit5\<close>).
\<close>

definition toLowerCase_char :: "char \<Rightarrow> char" where
  "toLowerCase_char c =
     (if CHR ''A'' \<le> c \<and> c \<le> CHR ''Z''
      then Char (digit0 c) (digit1 c) (digit2 c) (digit3 c) (digit4 c) True (digit6 c) (digit7 c)
      else c)"

definition toUpperCase_char :: "char \<Rightarrow> char" where
  "toUpperCase_char c =
     (if CHR ''a'' \<le> c \<and> c \<le> CHR ''z''
      then Char (digit0 c) (digit1 c) (digit2 c) (digit3 c) (digit4 c) False (digit6 c) (digit7 c)
      else c)"

definition toLowerCase :: "string \<Rightarrow> string" where
  "toLowerCase s = map toLowerCase_char s"

definition toUpperCase :: "string \<Rightarrow> string" where
  "toUpperCase s = map toUpperCase_char s"

text \<open>\<^verbatim>\<open>s.replace(/ /g, "_")\<close>\<close>

definition replaceSpaces :: "string \<Rightarrow> string" where
  "replaceSpaces s = map (\<lambda>c. if c = CHR '' '' then CHR ''_'' else c) s"

text \<open>\<^verbatim>\<open>hay.includes(needle)\<close>: \<open>needle\<close> occurs in \<open>hay\<close> as a contiguous block.\<close>

fun str_includes :: "string \<Rightarrow> string \<Rightarrow> bool" where
  "str_includes [] needle = (needle = [])"
| "str_includes (c # hay) needle = (prefix needle (c # hay) \<or> str_includes hay needle)"

text \<open>
  Truthiness of an optional string (\<^verbatim>\<open>if (filters.keyword)\<close>): \<^verbatim>\<open>undefined\<close> and the
  empty string are falsy.
\<close>

fun truthy_str :: "string option \<Rightarrow> bool" where
  "truthy_str None = False"
| "truthy_str (Some s) = (s \<noteq> [])"

text \<open>
  \<^verbatim>\<open>a || b\<close> on optional booleans: the left operand when it is truthy, the right
  operand otherwise (which may be \<^verbatim>\<open>undefined\<close>).
\<close>

fun js_or :: "bool option \<Rightarrow> bool option \<Rightarrow> bool option" where
  "js_or (Some True) b = Some True"
| "js_or a b = b"

section \<open>The study payload (models/types.ts)\<close>

text \<open>
  The fields of \<^verbatim>\<open>StudySchema\<close> that the filter engine, the list formatter and the
  record store read. Every \<^verbatim>\<open>.optional()\<close> field is an \<open>option\<close>. The field
  \<^verbatim>\<open>type\<close> of an intervention is \<open>type'\<close>, the field \<^verbatim>\<open>class\<close> of a sponsor
  is \<open>class'\<close> and the field \<^verbatim>\<open>keywords\<close> is \<open>keywords'\<close>. Enrollment counts are
  integers. The schema passes further fields of the payload through; they are not part of
  \<open>Study\<close>, and no function modelled here reads them.
\<close>

record Location =
  country :: "string option"
  state :: "string option"
  city :: "string option"

record Intervention =
  type' :: "string option"

record DateStruct =
  date :: "string option"

record IdentificationModule =
  nctId :: string
  briefTitle :: string

record StatusModule =
  overallStatus :: string
  startDateStruct :: "DateStruct option"
  completionDateStruct :: "DateStruct option"

record ConditionsModule =
  keywords' :: "string list option"

record MaskingInfo =
  masking :: "string option"

record DesignInfo =
  allocation :: "string option"
  interventionModel :: "string option"
  primaryPurpose :: "string option"
  maskingInfo :: "MaskingInfo option"

record EnrollmentInfo =
  count :: "int option"

record DesignModule =
  studyType :: "string option"
  phases :: "string list option"
  designInfo :: "DesignInfo option"
  enrollmentInfo :: "EnrollmentInfo option"

record ArmsInterventionsModule =
  interventions :: "Intervention list option"

record EligibilityModule =
  healthyVolunteers :: "bool option"
  sex :: "string option"
  minimumAge :: "string option"
  maximumAge :: "string option"
  stdAges :: "string list option"

record ContactsLocationsModule =
  locations :: "Location list option"

record LeadSponsor =
  class' :: "string option"

record SponsorCollaboratorsModule =
  leadSponsor :: "LeadSponsor option"

record OversightModule =
  isFdaRegulatedDrug :: "bool option"
  isFdaRegulatedDevice :: "bool option"

record ProtocolSection =
  identificationModule :: IdentificationModule
  statusModule :: StatusModule
  conditionsModule :: "ConditionsModule option"
  designModule :: "DesignModule option"
  armsInterventionsModule :: "ArmsInterventionsModule option"
  eligibilityModule :: "EligibilityModule option"
  contactsLocationsModule :: "ContactsLocationsModule option"
  sponsorCollaboratorsModule :: "SponsorCollaboratorsModule option"
  oversightModule :: "OversightModule option"

record Study =
  protocolSection :: ProtocolSection
  hasResults :: "bool option"

text \<open>
  \<^verbatim>\<open>FilterParams\<close>. A field whose name is also a field of the study carries the suffix
  \<open>_f\<close>. \<open>phase\<close> is not declared in the interface: \<^verbatim>\<open>filterStudies\<close> reads it
  through \<^verbatim>\<open>(filters as any).phase\<close>.
\<close>

record FilterParams =
  locationCountry :: "string option"
  locationState :: "string option"
  locationCity :: "string option"
  enrollmentMin :: "int option"
  enrollmentMax :: "int option"
  startDateAfter :: "string option"
  startDateBefore :: "string option"
  completionDateAfter :: "string option"
  completionDateBefore :: "string option"
  interventionType :: "string option"
  hasResults_f :: "bool option"
  studyType_f :: "string option"
  sex_f :: "string option"
  healthyVolunteers_f :: "bool option"
  sponsorClass :: "string option"
  allocation_f :: "string option"
  interventionModel_f :: "string option"
  primaryPurpose_f :: "string option"
  minAge :: "string option"
  maxAge :: "string option"
  ageGroups :: "string list option"
  masking_f :: "string option"
  fdaRegulated :: "bool option"
  keyword :: "string option"
  phase :: "string option"

section \<open>The filter engine (utils/helpers.ts, filterStudies)\<close>

text \<open>
  The model follows the revision of the function that starts with the phase block
  (src/utils/helpers.ts, lines 296-516).
\<close>

text \<open>The constants at the head of the callback; \<^verbatim>\<open>?.\<close> is \<^const>\<open>Option.bind\<close>.\<close>

definition locations_of :: "Study \<Rightarrow> Location list" where
  "locations_of study =
     (case Option.bind (contactsLocationsModule (protocolSection study)) locations of
        None \<Rightarrow> [] | Some ls \<Rightarrow> ls)"

definition interventions_of :: "Study \<Rightarrow> Intervention list" where
  "interventions_of study =
     (case Option.bind (armsInterventionsModule (protocolSection study)) interventions of
        None \<Rightarrow> [] | Some is \<Rightarrow> is)"

definition enrollment_of :: "Study \<Rightarrow> int option" where
  "enrollment_of study =
     Option.bind (Option.bind (designModule (protocolSection study)) enrollmentInfo) count"

definition startDate_of :: "Study \<Rightarrow> string option" where
  "startDate_of study = Option.bind (startDateStruct (statusModule (protocolSection study))) date"

definition completionDate_of :: "Study \<Rightarrow> string option" where
  "completionDate_of study =
     Option.bind (completionDateStruct (statusModule (protocolSection study))) date"

definition designInfo_of :: "Study \<Rightarrow> DesignInfo option" where
  "designInfo_of study = Option.bind (designModule (protocolSection study)) designInfo"

text \<open>
  One definition for each block of the callback, in the order of the source; each is
  \<open>False\<close> exactly when the block executes \<^verbatim>\<open>return false\<close>.
\<close>

definition byPhase :: "Study \<Rightarrow> FilterParams \<Rightarrow> bool" where
  "byPhase study filters =
     (if truthy_str (phase filters) then
        (let normalizedFilter = toLowerCase (the (phase filters));
             phases' = (case Option.bind (designModule (protocolSection study)) phases of
                          None \<Rightarrow> [] | Some ps \<Rightarrow> ps)
         in list_ex (\<lambda>p.
              let normalizedPhase = toLowerCase p in
              if normalizedFilter = ''phase 1''
              then normalizedPhase = ''phase 1'' \<or> normalizedPhase = ''early phase 1''
              else normalizedPhase = normalizedFilter) phases')
      else True)"

definition byLocationCountry :: "Study \<Rightarrow> FilterParams \<Rightarrow> bool" where
  "byLocationCountry study filters =
     (if truthy_str (locationCountry filters) then
        list_ex (\<lambda>loc. case country loc of
                   None \<Rightarrow> False
                 | Some c \<Rightarrow> str_includes (toLowerCase c)
                               (toLowerCase (the (locationCountry filters))))
          (locations_of study)
      else True)"

definition byLocationState :: "Study \<Rightarrow> FilterParams \<Rightarrow> bool" where
  "byLocationState study filters =
     (if truthy_str (locationState filters) then
        list_ex (\<lambda>loc. case state loc of
                   None \<Rightarrow> False
                 | Some c \<Rightarrow> str_includes (toLowerCase c)
                               (toLowerCase (the (locationState filters))))
          (locations_of study)
      else True)"

definition byLocationCity :: "Study \<Rightarrow> FilterParams \<Rightarrow> bool" where
  "byLocationCity study filters =
     (if truthy_str (locationCity filters) then
        list_ex (\<lambda>loc. case city loc of
                   None \<Rightarrow> False
                 | Some c \<Rightarrow> str_includes (toLowerCase c)
                               (toLowerCase (the (locationCity filters))))
          (locations_of study)
      else True)"

definition byEnrollmentMin :: "Study \<Rightarrow> FilterParams \<Rightarrow> bool" where
  "byEnrollmentMin study filters =
     (case (enrollmentMin filters, enrollment_of study) of
        (Some lo, Some enrollment) \<Rightarrow> \<not> enrollment < lo
      | _ \<Rightarrow> True)"

definition byEnrollmentMax :: "Study \<Rightarrow> FilterParams \<Rightarrow> bool" where
  "byEnrollmentMax study filters =
     (case (enrollmentMax filters, enrollment_of study) of
        (Some hi, Some enrollment) \<Rightarrow> \<not> enrollment > hi
      | _ \<Rightarrow> True)"

definition byStartDateAfter :: "Study \<Rightarrow> FilterParams \<Rightarrow> bool" where
  "byStartDateAfter study filters =
     (if truthy_str (startDateAfter filters) \<and> truthy_str (startDate_of study)
      then \<not> the (startDate_of study) < the (startDateAfter filters)
      else True)"

definition byStartDateBefore :: "Study \<Rightarrow> FilterParams \<Rightarrow> bool" where
  "byStartDateBefore study filters =
     (if truthy_str (startDateBefore filters) \<and> truthy_str (startDate_of study)
      then \<not> the (startDate_of study) > the (startDateBefore filters)
      else True)"

definition byCompletionDateAfter :: "Study \<Rightarrow> FilterParams \<Rightarrow> bool" where
  "byCompletionDateAfter study filters =
     (if truthy_str (completionDateAfter filters) \<and> truthy_str (completionDate_of study)
      then \<not> the (completionDate_of study) < the (completionDateAfter filters)
      else True)"

definition byCompletionDateBefore :: "Study \<Rightarrow> FilterParams \<Rightarrow> bool" where
  "byCompletionDateBefore study filters =
     (if truthy_str (completionDateBefore filters) \<and> truthy_str (completionDate_of study)
      then \<not> the (completionDate_of study) > the (completionDateBefore filters)
      else True)"

definition byInterventionType :: "Study \<Rightarrow> FilterParams \<Rightarrow> bool" where
  "byInterventionType study filters =
     (if truthy_str (interventionType filters) then
        list_ex (\<lambda>int. map_option toLowerCase (type' int)
                        = Some (toLowerCase (the (interventionType filters))))
          (interventions_of study)
      else True)"

definition byHasResults :: "Study \<Rightarrow> FilterParams \<Rightarrow> bool" where
  "byHasResults study filters =
     (case hasResults_f filters of
        None \<Rightarrow> True
      | Some wanted \<Rightarrow> hasResults study = Some wanted)"

definition byStudyType :: "Study \<Rightarrow> FilterParams \<Rightarrow> bool" where
  "byStudyType study filters =
     (if truthy_str (studyType_f filters) then
        map_option toUpperCase (Option.bind (designModule (protocolSection study)) studyType)
          = Some (toUpperCase (the (studyType_f filters)))
      else True)"

definition bySex :: "Study \<Rightarrow> FilterParams \<Rightarrow> bool" where
  "bySex study filters =
     (if truthy_str (sex_f filters) then
        map_option toUpperCase (Option.bind (eligibilityModule (protocolSection study)) sex)
          = Some (toUpperCase (the (sex_f filters)))
      else True)"

definition byHealthyVolunteers :: "Study \<Rightarrow> FilterParams \<Rightarrow> bool" where
  "byHealthyVolunteers study filters =
     (case healthyVolunteers_f filters of
        None \<Rightarrow> True
      | Some wanted \<Rightarrow>
          Option.bind (eligibilityModule (protocolSection study)) healthyVolunteers = Some wanted)"

definition bySponsorClass :: "Study \<Rightarrow> FilterParams \<Rightarrow> bool" where
  "bySponsorClass study filters =
     (if truthy_str (sponsorClass filters) then
        map_option toUpperCase
          (Option.bind (Option.bind (sponsorCollaboratorsModule (protocolSection study))
             leadSponsor) class')
          = Some (toUpperCase (the (sponsorClass filters)))
      else True)"

definition byAllocation :: "Study \<Rightarrow> FilterParams \<Rightarrow> bool" where
  "byAllocation study filters =
     (if truthy_str (allocation_f filters) then
        map_option (\<lambda>v. replaceSpaces (toUpperCase v))
          (Option.bind (designInfo_of study) allocation)
          = Some (replaceSpaces (toUpperCase (the (allocation_f filters))))
      else True)"

definition byInterventionModel :: "Study \<Rightarrow> FilterParams \<Rightarrow> bool" where
  "byInterventionModel study filters =
     (if truthy_str (interventionModel_f filters) then
        map_option (\<lambda>v. replaceSpaces (toUpperCase v))
          (Option.bind (designInfo_of study) interventionModel)
          = Some (replaceSpaces (toUpperCase (the (interventionModel_f filters))))
      else True)"

definition byPrimaryPurpose :: "Study \<Rightarrow> FilterParams \<Rightarrow> bool" where
  "byPrimaryPurpose study filters =
     (if truthy_str (primaryPurpose_f filters) then
        map_option (\<lambda>v. replaceSpaces (toUpperCase v))
          (Option.bind (designInfo_of study) primaryPurpose)
          = Some (replaceSpaces (toUpperCase (the (primaryPurpose_f filters))))
      else True)"

definition byMinAge :: "Study \<Rightarrow> FilterParams \<Rightarrow> bool" where
  "byMinAge study filters =
     (if truthy_str (minAge filters) then
        (let studyMinAge = Option.bind (eligibilityModule (protocolSection study)) minimumAge
         in if truthy_str studyMinAge
            then (if studyMinAge = Some ''N/A'' then False
                  else \<not> the studyMinAge < the (minAge filters))
            else False)
      else True)"

definition byMaxAge :: "Study \<Rightarrow> FilterParams \<Rightarrow> bool" where
  "byMaxAge study filters =
     (if truthy_str (maxAge filters) then
        (let studyMaxAge = Option.bind (eligibilityModule (protocolSection study)) maximumAge
         in if truthy_str studyMaxAge
            then (if studyMaxAge = Some ''N/A'' then False
                  else \<not> the studyMaxAge > the (maxAge filters))
            else False)
      else True)"

definition byAgeGroups :: "Study \<Rightarrow> FilterParams \<Rightarrow> bool" where
  "byAgeGroups study filters =
     (case ageGroups filters of
        None \<Rightarrow> True
      | Some groups \<Rightarrow>
          if length groups > 0 then
            (let studyAgeGroups =
                   (case Option.bind (eligibilityModule (protocolSection study)) stdAges of
                      None \<Rightarrow> [] | Some ags \<Rightarrow> ags)
             in list_ex (\<lambda>ag. list_ex (\<lambda>sag. toUpperCase sag = toUpperCase ag) studyAgeGroups)
                  groups)
          else True)"

definition byMasking :: "Study \<Rightarrow> FilterParams \<Rightarrow> bool" where
  "byMasking study filters =
     (if truthy_str (masking_f filters) then
        map_option toUpperCase
          (Option.bind (Option.bind (designInfo_of study) maskingInfo) masking)
          = Some (toUpperCase (the (masking_f filters)))
      else True)"

definition byFdaRegulated :: "Study \<Rightarrow> FilterParams \<Rightarrow> bool" where
  "byFdaRegulated study filters =
     (case fdaRegulated filters of
        None \<Rightarrow> True
      | Some wanted \<Rightarrow>
          (case oversightModule (protocolSection study) of
             Some oversight \<Rightarrow>
               js_or (isFdaRegulatedDrug oversight) (isFdaRegulatedDevice oversight) = Some wanted
           | None \<Rightarrow> False))"

text \<open>
  The same block in the earlier revision of the file (src/unnamed/part_005, lines 176-187),
  which has no \<^verbatim>\<open>else\<close> branch. That revision is not what \<open>matches\<close> follows;
  its block is kept here for comparison.
\<close>

definition byFdaRegulated_part_005 :: "Study \<Rightarrow> FilterParams \<Rightarrow> bool" where
  "byFdaRegulated_part_005 study filters =
     (case fdaRegulated filters of
        None \<Rightarrow> True
      | Some wanted \<Rightarrow>
          (case oversightModule (protocolSection study) of
             Some oversight \<Rightarrow>
               js_or (isFdaRegulatedDrug oversight) (isFdaRegulatedDevice oversight) = Some wanted
           | None \<Rightarrow> True))"

definition byKeyword :: "Study \<Rightarrow> FilterParams \<Rightarrow> bool" where
  "byKeyword study filters =
     (if truthy_str (keyword filters) then
        list_ex (\<lambda>kw. str_includes (toLowerCase kw) (toLowerCase (the (keyword filters))))
          (case Option.bind (conditionsModule (protocolSection study)) keywords' of
             None \<Rightarrow> [] | Some kws \<Rightarrow> kws)
      else True)"

text \<open>
  The callback of \<^verbatim>\<open>studies.filter\<close>: the record survives when no block returns
  \<^verbatim>\<open>false\<close>.
\<close>

definition matches :: "Study \<Rightarrow> FilterParams \<Rightarrow> bool" where
  "matches study filters =
     (byPhase study filters \<and> byLocationCountry study filters
      \<and> byLocationState study filters \<and> byLocationCity study filters
      \<and> byEnrollmentMin study filters \<and> byEnrollmentMax study filters
      \<and> byStartDateAfter study filters \<and> byStartDateBefore study filters
      \<and> byCompletionDateAfter study filters \<and> byCompletionDateBefore study filters
      \<and> byInterventionType study filters \<and> byHasResults study filters
      \<and> byStudyType study filters \<and> bySex study filters
      \<and> byHealthyVolunteers study filters \<and> bySponsorClass study filters
      \<and> byAllocation study filters \<and> byInterventionModel study filters
      \<and> byPrimaryPurpose study filters \<and> byMinAge study filters \<and> byMaxAge study filters
      \<and> byAgeGroups study filters \<and> byMasking study filters
      \<and> byFdaRegulated study filters \<and> byKeyword study filters)"

definition filterStudies :: "Study list \<Rightarrow> FilterParams \<Rightarrow> Study list" where
  "filterStudies studies filters = filter (\<lambda>study. matches study filters) studies"

section \<open>JSON values and \<^verbatim>\<open>JSON.stringify\<close>\<close>

text \<open>
  The values that \<^verbatim>\<open>params: any\<close> and a cached payload range over. A property list
  keeps its insertion order; an object has each key once. Numbers are integers.
\<close>

datatype jsval =
    JUndefined
  | JNull
  | JBool bool
  | JNum int
  | JStr string
  | JArr "jsval list"
  | JObj "(string \<times> jsval) list"

text \<open>Truthiness, as \<^verbatim>\<open>if (memoryData)\<close> tests it.\<close>

fun truthy :: "jsval \<Rightarrow> bool" where
  "truthy JUndefined = False"
| "truthy JNull = False"
| "truthy (JBool b) = b"
| "truthy (JNum n) = (n \<noteq> 0)"
| "truthy (JStr s) = (s \<noteq> [])"
| "truthy (JArr vs) = True"
| "truthy (JObj fs) = True"

text \<open>
  \<^verbatim>\<open>Number.prototype.toString(radix)\<close> on a non-negative integer, for a radix from 2
  to 36: digits \<open>0\<close> to \<open>9\<close>, then \<open>a\<close> to \<open>z\<close>.
\<close>

definition digitChar :: "nat \<Rightarrow> char" where
  "digitChar d = ''0123456789abcdefghijklmnopqrstuvwxyz'' ! d"

fun toStringRadix :: "nat \<Rightarrow> nat \<Rightarrow> string" where
  "toStringRadix radix n =
     (if n < radix then [digitChar n]
      else if radix < 2 then []
      else toStringRadix radix (n div radix) @ [digitChar (n mod radix)])"

declare toStringRadix.simps [simp del]

definition numberToString :: "int \<Rightarrow> string" where
  "numberToString n =
     (if n < 0 then CHR ''-'' # toStringRadix 10 (nat (- n)) else toStringRadix 10 (nat n))"

text \<open>\<^verbatim>\<open>QuoteJSONString\<close> of ECMA-262.\<close>

definition quoteJSONChar :: "char \<Rightarrow> string" where
  "quoteJSONChar c =
     (if c = CHR 0x08 then [CHR 0x5C, CHR ''b'']
      else if c = CHR 0x09 then [CHR 0x5C, CHR ''t'']
      else if c = CHR 0x0A then [CHR 0x5C, CHR ''n'']
      else if c = CHR 0x0C then [CHR 0x5C, CHR ''f'']
      else if c = CHR 0x0D then [CHR 0x5C, CHR ''r'']
      else if c = CHR 0x22 then [CHR 0x5C, CHR 0x22]
      else if c = CHR 0x5C then [CHR 0x5C, CHR 0x5C]
      else if c < CHR 0x20
        then [CHR 0x5C, CHR ''u'', CHR ''0'', CHR ''0'',
              digitChar (of_char c div 16), digitChar (of_char c mod 16)]
      else [c])"

definition quoteJSONString :: "string \<Rightarrow> string" where
  "quoteJSONString s = [CHR 0x22] @ concat (map quoteJSONChar s) @ [CHR 0x22]"

text \<open>\<^verbatim>\<open>parts.join(sep)\<close>\<close>

fun join :: "string \<Rightarrow> string list \<Rightarrow> string" where
  "join sep [] = []"
| "join sep [x] = x"
| "join sep (x # y # xs) = x @ sep @ join sep (y # xs)"

text \<open>
  \<^verbatim>\<open>SerializeJSONProperty\<close> of ECMA-262 without indentation; \<open>None\<close> is the result
  \<^verbatim>\<open>undefined\<close>. The first argument is the property list of an array replacer
  (\<^verbatim>\<open>JSON.stringify(value, keys)\<close>): when it is given, every object, nested ones too,
  is written with the properties named in the list, in the order of the list; without it
  an object is written with its own keys in their order. A property whose value serializes
  to \<^verbatim>\<open>undefined\<close> is left out; such an element of an array is written \<open>null\<close>.
\<close>

fun serializeJSONProperty :: "string list option \<Rightarrow> jsval \<Rightarrow> string option" where
  "serializeJSONProperty propertyList JUndefined = None"
| "serializeJSONProperty propertyList JNull = Some ''null''"
| "serializeJSONProperty propertyList (JBool b) = Some (if b then ''true'' else ''false'')"
| "serializeJSONProperty propertyList (JNum n) = Some (numberToString n)"
| "serializeJSONProperty propertyList (JStr s) = Some (quoteJSONString s)"
| "serializeJSONProperty propertyList (JArr vs) =
     Some (''['' @ join '',''
        (map (\<lambda>v. case serializeJSONProperty propertyList v of
                     None \<Rightarrow> ''null'' | Some str \<Rightarrow> str) vs) @ '']'')"
| "serializeJSONProperty propertyList (JObj fs) =
     (let K = (case propertyList of Some ks \<Rightarrow> ks | None \<Rightarrow> map fst fs);
          strs = map (\<lambda>kv. (fst kv, serializeJSONProperty propertyList (snd kv))) fs
      in Some (''{'' @ join '',''
           (concat (map (\<lambda>P. case map_of strs P of
                                Some (Some strP) \<Rightarrow> [quoteJSONString P @ '':'' @ strP]
                              | _ \<Rightarrow> []) K)) @ ''}''))"

text \<open>
  The image of a value \<open>v\<close> held in an object (the payload of a cache entry) when the
  object is written by \<^verbatim>\<open>JSON.stringify\<close> and read back by \<^verbatim>\<open>JSON.parse\<close> (ECMA-262):
  a property whose value is \<^verbatim>\<open>undefined\<close> is not written, so it is gone, and reads as
  \<^verbatim>\<open>undefined\<close>; an \<^verbatim>\<open>undefined\<close> element of an array is written \<open>null\<close>;
  everything else is kept. A value is JSON-safe when no \<^verbatim>\<open>undefined\<close> occurs in it.
  The objects of the language have every key once.
\<close>

fun jsonImage :: "jsval \<Rightarrow> jsval" where
  "jsonImage (JArr vs) = JArr (map (\<lambda>v. if v = JUndefined then JNull else jsonImage v) vs)"
| "jsonImage (JObj fs) =
     JObj (map (\<lambda>kv. (fst kv, jsonImage (snd kv))) (filter (\<lambda>kv. snd kv \<noteq> JUndefined) fs))"
| "jsonImage v = v"


fun eachKeyOnce :: "jsval \<Rightarrow> bool" where
  "eachKeyOnce (JArr vs) = list_all eachKeyOnce vs"
| "eachKeyOnce (JObj fs) = (distinct (map fst fs) \<and> list_all (\<lambda>kv. eachKeyOnce (snd kv)) fs)"
| "eachKeyOnce v = True"

section \<open>The response cache (utils/cache.ts, CacheManager)\<close>

definition MEMORY_CACHE_TTL_MS :: int where
  "MEMORY_CACHE_TTL_MS = 60 * 1000"

definition DISK_CACHE_TTL_MS :: int where
  "DISK_CACHE_TTL_MS = 24 * 60 * 60 * 1000"

record 'a CacheEntry =
  data :: 'a
  timestamp :: int

text \<open>
  An exception that is thrown, with its message. \<^verbatim>\<open>JSON.stringify\<close> and
  \<^verbatim>\<open>JSON.parse\<close> of a typed value (a cache entry, a study) are built-ins of the
  platform and are taken as a parameter: \<open>JSON_parse\<close> returns \<open>Inl\<close> where
  \<^verbatim>\<open>JSON.parse\<close> throws.
\<close>

datatype error = Error (message: string)

record 'a JSON =
  JSON_stringify :: "'a \<Rightarrow> string"
  JSON_parse :: "string \<Rightarrow> error + 'a"

text \<open>
  The state of a \<^verbatim>\<open>CacheManager\<close>: its memory map, its directory and the files of
  the file system, from path to content. Every operation takes the value of
  \<^verbatim>\<open>Date.now()\<close> as \<open>now\<close>.
\<close>

record CacheManager =
  memoryCache :: "string \<rightharpoonup> jsval CacheEntry"
  cacheDir :: string
  files :: "string \<rightharpoonup> string"

text \<open>
  \<^verbatim>\<open>hash = (hash << 5) - hash + char; hash = hash & hash\<close> on 32-bit integers, then
  \<^verbatim>\<open>Math.abs(hash).toString(36)\<close>.
\<close>

definition hashStep :: "32 word \<Rightarrow> char \<Rightarrow> 32 word" where
  "hashStep hash c = push_bit 5 hash - hash + of_nat (of_char c)"

definition hashString :: "string \<Rightarrow> string" where
  "hashString str = toStringRadix 36 (nat \<bar>sint (foldl hashStep 0 str)\<bar>)"

text \<open>
  \<^verbatim>\<open>JSON.stringify(params, Object.keys(params).sort())\<close> for an object \<open>params\<close>, which
  always serializes to a string.
\<close>

definition generateKey :: "string \<Rightarrow> (string \<times> jsval) list \<Rightarrow> string" where
  "generateKey prefix' params =
     (let paramsStr = (case serializeJSONProperty (Some (sort (map fst params))) (JObj params) of
                         Some str \<Rightarrow> str | None \<Rightarrow> [])
      in prefix' @ '':'' @ hashString paramsStr)"

definition getFromMemory :: "CacheManager \<Rightarrow> string \<Rightarrow> int \<Rightarrow> jsval \<times> CacheManager" where
  "getFromMemory this key now =
     (case memoryCache this key of
        None \<Rightarrow> (JNull, this)
      | Some entry \<Rightarrow>
          if now - timestamp entry > MEMORY_CACHE_TTL_MS
          then (JNull, this\<lparr>memoryCache := (memoryCache this)(key := None)\<rparr>)
          else (data entry, this))"

definition setInMemory :: "CacheManager \<Rightarrow> string \<Rightarrow> jsval \<Rightarrow> int \<Rightarrow> CacheManager" where
  "setInMemory this key d now =
     this\<lparr>memoryCache := (memoryCache this)(key \<mapsto> \<lparr>data = d, timestamp = now\<rparr>)\<rparr>"

definition getDiskCachePath :: "CacheManager \<Rightarrow> string \<Rightarrow> string" where
  "getDiskCachePath this key = cacheDir this @ ''/'' @ key @ ''.json''"

definition getFromDisk ::
  "jsval CacheEntry JSON \<Rightarrow> CacheManager \<Rightarrow> string \<Rightarrow> int \<Rightarrow> jsval \<times> CacheManager" where
  "getFromDisk J this key now =
     (let filePath = getDiskCachePath this key in
      case files this filePath of
        None \<Rightarrow> (JNull, this)
      | Some content \<Rightarrow>
          (case JSON_parse J content of
             Inr entry \<Rightarrow>
               if now - timestamp entry > DISK_CACHE_TTL_MS
               then (JNull, this\<lparr>files := (files this)(filePath := None)\<rparr>)
               else (data entry, this)
           | Inl e \<Rightarrow> (JNull, this\<lparr>files := (files this)(filePath := None)\<rparr>)))"

text \<open>
  The file holds \<^verbatim>\<open>JSON.stringify(entry, null, 2)\<close>, which is \<open>JSON_stringify\<close> of the
  parameter.
\<close>

definition setOnDisk ::
  "jsval CacheEntry JSON \<Rightarrow> CacheManager \<Rightarrow> string \<Rightarrow> jsval \<Rightarrow> int \<Rightarrow> CacheManager" where
  "setOnDisk J this key d now =
     this\<lparr>files := (files this)(getDiskCachePath this key \<mapsto>
             JSON_stringify J \<lparr>data = d, timestamp = now\<rparr>)\<rparr>"

text \<open>\<^verbatim>\<open>CacheManager.get\<close> and \<^verbatim>\<open>CacheManager.set\<close>.\<close>

definition cache_get ::
  "jsval CacheEntry JSON \<Rightarrow> CacheManager \<Rightarrow> string \<Rightarrow> (string \<times> jsval) list \<Rightarrow> int
     \<Rightarrow> jsval \<times> CacheManager" where
  "cache_get J this prefix' params now =
     (let key = generateKey prefix' params;
          (memoryData, this1) = getFromMemory this key now
      in if truthy memoryData then (memoryData, this1)
         else (let (diskData, this2) = getFromDisk J this1 key now
               in if truthy diskData then (diskData, setInMemory this2 key diskData now)
                  else (JNull, this2)))"

definition cache_set ::
  "jsval CacheEntry JSON \<Rightarrow> CacheManager \<Rightarrow> string \<Rightarrow> (string \<times> jsval) list \<Rightarrow> jsval
     \<Rightarrow> int \<Rightarrow> CacheManager" where
  "cache_set J this prefix' params d now =
     (let key = generateKey prefix' params
      in setOnDisk J (setInMemory this key d now) key d now)"

section \<open>The record store (db/database.ts, DatabaseManager)\<close>

text \<open>
  A row of the table \<^verbatim>\<open>studies\<close>: the columns that are computed from the modelled
  fields of the study, and \<^verbatim>\<open>raw_json\<close>. A column whose name is also a field of the
  study or of the criteria carries the suffix \<open>_col\<close>. A nullable column is an
  \<open>option\<close>; a \<^verbatim>\<open>BOOLEAN\<close> column holds 0 or 1.
\<close>

record StudyRow =
  brief_title :: string
  overall_status :: string
  study_type :: "string option"
  phase_col :: "string option"
  enrollment_count :: "int option"
  start_date :: "string option"
  completion_date :: "string option"
  has_results :: int
  sex_col :: "string option"
  minimum_age :: "string option"
  maximum_age :: "string option"
  healthy_volunteers :: int
  lead_sponsor_class :: "string option"
  allocation_col :: "string option"
  intervention_model :: "string option"
  primary_purpose :: "string option"
  masking_col :: "string option"
  is_fda_regulated_drug :: int
  is_fda_regulated_device :: int
  age_groups :: "string option"
  raw_json :: string

text \<open>
  The tables: \<^verbatim>\<open>studies\<close> by its primary key \<^verbatim>\<open>nct_id\<close>, \<^verbatim>\<open>search_sessions\<close>
  by its primary key \<^verbatim>\<open>session_id\<close> (the value is the column \<^verbatim>\<open>search_params\<close>),
  and the rows \<^verbatim>\<open>(session_id, nct_id)\<close> of \<^verbatim>\<open>session_results\<close> in the order of
  their insertion. The timestamp columns are left out.
\<close>

record DatabaseManager =
  studies :: "string \<rightharpoonup> StudyRow"
  search_sessions :: "string \<rightharpoonup> string"
  session_results :: "(string \<times> string) list"

text \<open>The store of a new database file: \<^verbatim>\<open>initialize\<close> creates the tables, empty.\<close>

definition emptyDb :: DatabaseManager where
  "emptyDb = \<lparr> studies = Map.empty, search_sessions = Map.empty, session_results = [] \<rparr>"

text \<open>\<^verbatim>\<open>value || null\<close> on an optional string and on an optional number.\<close>

definition orNull :: "string option \<Rightarrow> string option" where
  "orNull v = (if truthy_str v then v else None)"

definition orNull_num :: "int option \<Rightarrow> int option" where
  "orNull_num v = (case v of None \<Rightarrow> None | Some n \<Rightarrow> if n = 0 then None else Some n)"

text \<open>\<^verbatim>\<open>flag ? 1 : 0\<close> on an optional boolean.\<close>

definition flag01 :: "bool option \<Rightarrow> int" where
  "flag01 v = (if v = Some True then 1 else 0)"

definition nctIdOf :: "Study \<Rightarrow> string" where
  "nctIdOf study = nctId (identificationModule (protocolSection study))"

text \<open>The parameters that \<^verbatim>\<open>upsertStudy\<close> binds to the statement on \<^verbatim>\<open>studies\<close>.\<close>

definition studyRow :: "Study JSON \<Rightarrow> Study \<Rightarrow> StudyRow" where
  "studyRow J study =
     (let protocol = protocolSection study;
          identification = identificationModule protocol;
          status = statusModule protocol;
          design = designModule protocol;
          eligibility = eligibilityModule protocol;
          sponsor = sponsorCollaboratorsModule protocol;
          oversight = oversightModule protocol
      in \<lparr> brief_title = briefTitle identification,
           overall_status = overallStatus status,
           study_type = orNull (Option.bind design studyType),
           phase_col = orNull (map_option (join '', '') (Option.bind design phases)),
           enrollment_count =
             orNull_num (Option.bind (Option.bind design enrollmentInfo) count),
           start_date = orNull (Option.bind (startDateStruct status) date),
           completion_date = orNull (Option.bind (completionDateStruct status) date),
           has_results = flag01 (hasResults study),
           sex_col = orNull (Option.bind eligibility sex),
           minimum_age = orNull (Option.bind eligibility minimumAge),
           maximum_age = orNull (Option.bind eligibility maximumAge),
           healthy_volunteers = flag01 (Option.bind eligibility healthyVolunteers),
           lead_sponsor_class = orNull (Option.bind (Option.bind sponsor leadSponsor) class'),
           allocation_col = orNull (Option.bind (Option.bind design designInfo) allocation),
           intervention_model =
             orNull (Option.bind (Option.bind design designInfo) interventionModel),
           primary_purpose =
             orNull (Option.bind (Option.bind design designInfo) primaryPurpose),
           masking_col =
             orNull (Option.bind (Option.bind (Option.bind design designInfo) maskingInfo)
               masking),
           is_fda_regulated_drug = flag01 (Option.bind oversight isFdaRegulatedDrug),
           is_fda_regulated_device = flag01 (Option.bind oversight isFdaRegulatedDevice),
           age_groups = orNull (map_option (join '','') (Option.bind eligibility stdAges)),
           raw_json = JSON_stringify J study \<rparr>)"

text \<open>
  \<^verbatim>\<open>upsertStudy\<close>: \<^verbatim>\<open>INSERT ... ON CONFLICT(nct_id) DO UPDATE SET\<close> every column,
  so the row under the identifier is the new one in both cases. The statements on the child
  tables (conditions, keywords, interventions, locations, outcomes) run after it and write
  no row of \<^verbatim>\<open>studies\<close>; those tables are not part of the model.
\<close>

definition upsertStudy :: "Study JSON \<Rightarrow> DatabaseManager \<Rightarrow> Study \<Rightarrow> DatabaseManager" where
  "upsertStudy J this study =
     this\<lparr>studies := (studies this)(nctIdOf study \<mapsto> studyRow J study)\<rparr>"

text \<open>\<^verbatim>\<open>getStudy\<close>: \<open>Inr None\<close> is \<^verbatim>\<open>null\<close>, \<open>Inl\<close> an exception of \<^verbatim>\<open>JSON.parse\<close>.\<close>

definition getStudy :: "Study JSON \<Rightarrow> DatabaseManager \<Rightarrow> string \<Rightarrow> error + Study option" where
  "getStudy J this nctId' =
     (case studies this nctId' of
        Some row \<Rightarrow>
          (case JSON_parse J (raw_json row) of
             Inr study \<Rightarrow> Inr (Some study)
           | Inl e \<Rightarrow> Inl e)
      | None \<Rightarrow> Inr None)"

text \<open>
  One \<^verbatim>\<open>INSERT INTO session_results\<close>. The primary key \<^verbatim>\<open>(session_id, nct_id)\<close> and
  the two foreign keys (the connection sets \<^verbatim>\<open>foreign_keys = ON\<close>) make the statement
  throw; nothing is written then.
\<close>

definition insertResult :: "DatabaseManager \<Rightarrow> string \<Rightarrow> string \<Rightarrow> error + DatabaseManager" where
  "insertResult this sessionId nctId' =
     (if (sessionId, nctId') \<in> set (session_results this)
      then Inl (Error
        ''UNIQUE constraint failed: session_results.session_id, session_results.nct_id'')
      else if search_sessions this sessionId = None then Inl (Error ''FOREIGN KEY constraint failed'')
      else if studies this nctId' = None then Inl (Error ''FOREIGN KEY constraint failed'')
      else Inr (this\<lparr>session_results := session_results this @ [(sessionId, nctId')]\<rparr>))"

text \<open>
  \<^verbatim>\<open>for (const nctId of nctIds) insertResult.run(sessionId, nctId)\<close>. Every statement
  commits on its own: when one throws, the rows written before it stay. The result is the
  exception, if any, and the state that is left.
\<close>

fun insertResults ::
  "DatabaseManager \<Rightarrow> string \<Rightarrow> string list \<Rightarrow> error option \<times> DatabaseManager" where
  "insertResults this sessionId [] = (None, this)"
| "insertResults this sessionId (nctId' # nctIds) =
     (case insertResult this sessionId nctId' of
        Inl e \<Rightarrow> (Some e, this)
      | Inr this' \<Rightarrow> insertResults this' sessionId nctIds)"

definition createSession ::
  "DatabaseManager \<Rightarrow> string \<Rightarrow> (string \<times> jsval) list \<Rightarrow> string list
     \<Rightarrow> error option \<times> DatabaseManager" where
  "createSession this sessionId searchParams nctIds =
     (if search_sessions this sessionId \<noteq> None
      then (Some (Error ''UNIQUE constraint failed: search_sessions.session_id''), this)
      else insertResults
        (this\<lparr>search_sessions := (search_sessions this)(sessionId \<mapsto>
            (case serializeJSONProperty None (JObj searchParams) of
               Some str \<Rightarrow> str | None \<Rightarrow> []))\<rparr>)
        sessionId nctIds)"

text \<open>\<^verbatim>\<open>rows.map((row) => JSON.parse(row.raw_json))\<close>: the first exception ends the map.\<close>

fun parseRows :: "Study JSON \<Rightarrow> string list \<Rightarrow> error + Study list" where
  "parseRows J [] = Inr []"
| "parseRows J (r # rs) =
     (case JSON_parse J r of
        Inl e \<Rightarrow> Inl e
      | Inr study \<Rightarrow> (case parseRows J rs of Inl e \<Rightarrow> Inl e | Inr ss \<Rightarrow> Inr (study # ss)))"

text \<open>
  \<^verbatim>\<open>getSessionResults\<close>: the inner join of \<^verbatim>\<open>session_results\<close> with \<^verbatim>\<open>studies\<close>
  for one session, taken in the order of \<^verbatim>\<open>session_results\<close>, then parsed.
\<close>

definition getSessionResults ::
  "Study JSON \<Rightarrow> DatabaseManager \<Rightarrow> string \<Rightarrow> error + Study list" where
  "getSessionResults J this sessionId =
     parseRows J (map raw_json
       (List.map_filter (\<lambda>sr. if fst sr = sessionId then studies this (snd sr) else None)
          (session_results this)))"

text \<open>\<^verbatim>\<open>updateSessionResults\<close>: delete the rows of the session, then insert the new ones.\<close>

definition updateSessionResults ::
  "DatabaseManager \<Rightarrow> string \<Rightarrow> string list \<Rightarrow> error option \<times> DatabaseManager" where
  "updateSessionResults this sessionId nctIds =
     insertResults
       (this\<lparr>session_results := filter (\<lambda>sr. fst sr \<noteq> sessionId) (session_results this)\<rparr>)
       sessionId nctIds"

section \<open>The list formatter and the refinement handler\<close>

definition newline :: string where
  "newline = [CHR 0x0A]"

text \<open>The body of the loop of \<^verbatim>\<open>formatStudyList\<close> for the study at index \<open>i\<close>.\<close>

definition formatStudyEntry :: "nat \<Rightarrow> Study \<Rightarrow> string" where
  "formatStudyEntry i study =
     (let protocol = protocolSection study;
          id = identificationModule protocol;
          status = statusModule protocol;
          design = designModule protocol
      in numberToString (int (i + 1)) @ ''. **'' @ nctId id @ ''** - '' @ briefTitle id @ newline
         @ ''   Status: '' @ overallStatus status
         @ (case Option.bind design phases of
              Some ps \<Rightarrow> if length ps > 0 then '' | Phase: '' @ join '', '' ps else []
            | None \<Rightarrow> [])
         @ (case Option.bind (Option.bind design enrollmentInfo) count of
              Some n \<Rightarrow> if n \<noteq> 0 then '' | Enrollment: '' @ numberToString n else []
            | None \<Rightarrow> [])
         @ newline @ newline)"

definition formatStudyList :: "Study list \<Rightarrow> nat \<Rightarrow> string" where
  "formatStudyList studies' maxResults =
     (let displayStudies = take maxResults studies'
      in ''Found '' @ numberToString (int (length studies')) @ '' studies'' @ newline @ newline
         @ concat (map (\<lambda>(i, study). formatStudyEntry i study)
             (zip [0 ..< length displayStudies] displayStudies))
         @ (if length studies' > maxResults
            then ''... and '' @ numberToString (int (length studies') - int maxResults)
                 @ '' more studies'' @ newline
            else []))"

text \<open>
  The result of a tool call: the text of its one content item, and \<^verbatim>\<open>isError\<close>
  (absent is \<open>False\<close>).
\<close>

record ToolResult =
  text' :: string
  isError :: bool

text \<open>
  The case \<^verbatim>\<open>refine_results\<close> of the tool handler (server/index.ts), inside the
  \<^verbatim>\<open>try\<close> whose \<^verbatim>\<open>catch\<close> turns an exception into an error result. It reads and
  writes the record store only.
\<close>

definition refine_results ::
  "Study JSON \<Rightarrow> DatabaseManager \<Rightarrow> string \<Rightarrow> FilterParams \<Rightarrow> ToolResult \<times> DatabaseManager" where
  "refine_results J db sessionId filterParams =
     (case getSessionResults J db sessionId of
        Inl e \<Rightarrow> (\<lparr>text' = ''Error: '' @ message e, isError = True\<rparr>, db)
      | Inr studies' \<Rightarrow>
          if length studies' = 0
          then (\<lparr>text' = ''Session '' @ sessionId @ '' not found or has no results.'',
                 isError = False\<rparr>, db)
          else
            (let filteredStudies = filterStudies studies' filterParams;
                 nctIds = map nctIdOf filteredStudies
             in case updateSessionResults db sessionId nctIds of
                  (Some e, db') \<Rightarrow> (\<lparr>text' = ''Error: '' @ message e, isError = True\<rparr>, db')
                | (None, db') \<Rightarrow>
                    (\<lparr>text' = ''Filtered to '' @ numberToString (int (length filteredStudies))
                         @ '' studies (from '' @ numberToString (int (length studies'))
                         @ '')'' @ newline @ newline @ formatStudyList filteredStudies 10,
                      isError = False\<rparr>, db')))"

text \<open>
  The identifier set that the store holds for a session, the study that an identifier
  resolves to, and the invariant of the store: \<^verbatim>\<open>session_results\<close> has no row twice and
  every row refers to a session and to a study (the primary and foreign keys), and the
  \<^verbatim>\<open>raw_json\<close> of every row of \<^verbatim>\<open>studies\<close> parses to a study with the identifier of
  the row.
\<close>

definition sessionIds :: "DatabaseManager \<Rightarrow> string \<Rightarrow> string list" where
  "sessionIds this sessionId =
     map snd (filter (\<lambda>sr. fst sr = sessionId) (session_results this))"

definition resolve :: "Study JSON \<Rightarrow> DatabaseManager \<Rightarrow> string \<Rightarrow> Study option" where
  "resolve J this nctId' =
     (case getStudy J this nctId' of Inr (Some study) \<Rightarrow> Some study | _ \<Rightarrow> None)"

definition wf_db :: "Study JSON \<Rightarrow> DatabaseManager \<Rightarrow> bool" where
  "wf_db J this =
     (distinct (session_results this)
      \<and> (\<forall>sr \<in> set (session_results this).
            search_sessions this (fst sr) \<noteq> None \<and> studies this (snd sr) \<noteq> None)
      \<and> (\<forall>k row. studies this k = Some row \<longrightarrow>
            (\<exists>study. JSON_parse J (raw_json row) = Inr study \<and> nctIdOf study = k)))"

text \<open>Successive refinements of one session.\<close>

definition refine_many ::
  "Study JSON \<Rightarrow> DatabaseManager \<Rightarrow> string \<Rightarrow> FilterParams list \<Rightarrow> DatabaseManager" where
  "refine_many J db sessionId criteria =
     foldl (\<lambda>d filterParams. snd (refine_results J d sessionId filterParams)) db criteria"

text \<open>
  The stores that the operations produce from the empty one, where every study that is
  upserted is one that \<^verbatim>\<open>JSON.parse\<close> recovers from its \<^verbatim>\<open>JSON.stringify\<close> text.
\<close>

inductive reachable :: "Study JSON \<Rightarrow> DatabaseManager \<Rightarrow> bool" for J :: "Study JSON" where
  reachable_empty: "reachable J emptyDb"
| reachable_upsert:
    "reachable J db \<Longrightarrow> JSON_parse J (JSON_stringify J study) = Inr study
       \<Longrightarrow> reachable J (upsertStudy J db study)"
| reachable_create:
    "reachable J db \<Longrightarrow> reachable J (snd (createSession db sessionId searchParams nctIds))"
| reachable_update:
    "reachable J db \<Longrightarrow> reachable J (snd (updateSessionResults db sessionId nctIds))"
| reachable_refine:
    "reachable J db \<Longrightarrow> reachable J (snd (refine_results J db sessionId filterParams))"

section \<open>Example data\<close>

text \<open>
  The empty criteria, a study with the two mandatory modules only, and a study with every
  module that the filter engine reads.
\<close>

definition noFilters :: FilterParams where
  "noFilters = \<lparr> locationCountry = None, locationState = None, locationCity = None,
     enrollmentMin = None, enrollmentMax = None, startDateAfter = None, startDateBefore = None,
     completionDateAfter = None, completionDateBefore = None, interventionType = None,
     hasResults_f = None, studyType_f = None, sex_f = None, healthyVolunteers_f = None,
     sponsorClass = None, allocation_f = None, interventionModel_f = None,
     primaryPurpose_f = None, minAge = None, maxAge = None, ageGroups = None,
     masking_f = None, fdaRegulated = None, keyword = None, phase = None \<rparr>"

definition minimalStudy :: "string \<Rightarrow> Study" where
  "minimalStudy n = \<lparr> protocolSection = \<lparr>
       identificationModule = \<lparr> nctId = n, briefTitle = ''A trial'' \<rparr>,
       statusModule = \<lparr> overallStatus = ''RECRUITING'', startDateStruct = None,
                        completionDateStruct = None \<rparr>,
       conditionsModule = None, designModule = None, armsInterventionsModule = None,
       eligibilityModule = None, contactsLocationsModule = None,
       sponsorCollaboratorsModule = None, oversightModule = None \<rparr>,
     hasResults = None \<rparr>"

definition designedStudy :: "string \<Rightarrow> Study" where
  "designedStudy n = \<lparr> protocolSection = \<lparr>
       identificationModule = \<lparr> nctId = n, briefTitle = ''A designed trial'' \<rparr>,
       statusModule = \<lparr> overallStatus = ''COMPLETED'',
                        startDateStruct = Some \<lparr> date = Some ''2020-01-15'' \<rparr>,
                        completionDateStruct = Some \<lparr> date = Some ''2022-06-30'' \<rparr> \<rparr>,
       conditionsModule = Some \<lparr> keywords' = Some [''Insulin'', ''Glucose''] \<rparr>,
       designModule = Some \<lparr> studyType = Some ''EXPANDED_ACCESS'', phases = Some [''PHASE2''],
         designInfo = Some \<lparr> allocation = Some ''Randomized'',
                               interventionModel = Some ''Parallel Assignment'',
                               primaryPurpose = Some ''Supportive Care'',
                               maskingInfo = Some \<lparr> masking = Some ''Double'' \<rparr> \<rparr>,
         enrollmentInfo = Some \<lparr> count = Some 250 \<rparr> \<rparr>,
       armsInterventionsModule = Some \<lparr> interventions = Some [\<lparr> type' = Some ''DRUG'' \<rparr>] \<rparr>,
       eligibilityModule = Some \<lparr> healthyVolunteers = Some False, sex = Some ''Female'',
         minimumAge = Some ''18 Years'', maximumAge = Some ''65 Years'',
         stdAges = Some [''ADULT''] \<rparr>,
       contactsLocationsModule = Some \<lparr> locations = Some
         [\<lparr> country = Some ''United States'', state = Some ''Ohio'', city = Some ''Columbus'' \<rparr>] \<rparr>,
       sponsorCollaboratorsModule = Some \<lparr> leadSponsor = Some \<lparr> class' = Some ''Other_Gov'' \<rparr> \<rparr>,
       oversightModule = Some \<lparr> isFdaRegulatedDrug = Some True,
                                 isFdaRegulatedDevice = Some False \<rparr> \<rparr>,
     hasResults = Some True \<rparr>"

definition enumFilters :: FilterParams where
  "enumFilters = noFilters\<lparr> studyType_f := Some ''expanded_access'', sex_f := Some ''FEMALE'',
     sponsorClass := Some ''OTHER_GOV'', allocation_f := Some ''RANDOMIZED'',
     interventionModel_f := Some ''PARALLEL_ASSIGNMENT'',
     primaryPurpose_f := Some ''SUPPORTIVE_CARE'', masking_f := Some ''DOUBLE'' \<rparr>"


text \<open>
  An instance of the \<^verbatim>\<open>JSON\<close> built-ins for a finite set of documents: a table of
  values with their texts.
\<close>

definition tableJSON :: "('a \<times> string) list \<Rightarrow> 'a JSON" where
  "tableJSON table =
     \<lparr> JSON_stringify = (\<lambda>x. case map_of table x of Some text \<Rightarrow> text | None \<Rightarrow> ''null''),
       JSON_parse = (\<lambda>text. case find (\<lambda>row. snd row = text) table of
                              Some row \<Rightarrow> Inr (fst row)
                            | None \<Rightarrow> Inl (Error ''Unexpected token in JSON'')) \<rparr>"


definition exampleParams :: "(string \<times> jsval) list" where
  "exampleParams = [(''pageSize'', JNum 100), (''condition'', JStr ''diabetes'')]"

definition exampleParams' :: "(string \<times> jsval) list" where
  "exampleParams' = [(''condition'', JStr ''diabetes''), (''pageSize'', JNum 100)]"





text \<open>
  A store with two studies and two sessions, built by the operations themselves: the session
  \<open>session_1\<close> holds both studies, the session \<open>session_0\<close> comes from a search without
  results. \<open>updatedStudy\<close> is a later version of the first study.
\<close>

definition updatedStudy :: Study where
  "updatedStudy = (minimalStudy ''NCT1'')\<lparr>hasResults := Some True\<rparr>"

definition studyJSON :: "Study JSON" where
  "studyJSON = tableJSON
     [(minimalStudy ''NCT1'', ''{\"protocolSection\":{\"identificationModule\":{\"nctId\":\"NCT1\"}}}''),
      (designedStudy ''NCT2'', ''{\"protocolSection\":{\"identificationModule\":{\"nctId\":\"NCT2\"}}}''),
      (updatedStudy,
       ''{\"protocolSection\":{\"identificationModule\":{\"nctId\":\"NCT1\"}},\"hasResults\":true}'')]"

definition storedDb :: DatabaseManager where
  "storedDb = upsertStudy studyJSON (upsertStudy studyJSON emptyDb (minimalStudy ''NCT1''))
                (designedStudy ''NCT2'')"

definition exampleDb :: DatabaseManager where
  "exampleDb = snd (createSession
     (snd (createSession storedDb ''session_1'' exampleParams [''NCT1'', ''NCT2'']))
     ''session_0'' exampleParams [])"

section \<open>Properties of the filter engine\<close>

lemmas by_defs = byPhase_def byLocationCountry_def byLocationState_def byLocationCity_def
  byEnrollmentMin_def byEnrollmentMax_def byStartDateAfter_def byStartDateBefore_def
  byCompletionDateAfter_def byCompletionDateBefore_def byInterventionType_def byHasResults_def
  byStudyType_def bySex_def byHealthyVolunteers_def bySponsorClass_def byAllocation_def
  byInterventionModel_def byPrimaryPurpose_def byMinAge_def byMaxAge_def byAgeGroups_def
  byMasking_def byFdaRegulated_def byKeyword_def

lemmas of_defs = locations_of_def interventions_of_def enrollment_of_def startDate_of_def
  completionDate_of_def designInfo_of_def

lemmas case_defs = toLowerCase_def toLowerCase_char_def toUpperCase_def toUpperCase_char_def
  replaceSpaces_def

lemmas example_defs = noFilters_def minimalStudy_def designedStudy_def enumFilters_def


lemma oversight_irrelevant:
  shows "byPhase (study\<lparr>protocolSection := (protocolSection study)\<lparr>oversightModule := om\<rparr>\<rparr>) filters = byPhase study filters" and
    "byLocationCountry (study\<lparr>protocolSection := (protocolSection study)\<lparr>oversightModule := om\<rparr>\<rparr>) filters = byLocationCountry study filters" and
    "byLocationState (study\<lparr>protocolSection := (protocolSection study)\<lparr>oversightModule := om\<rparr>\<rparr>) filters = byLocationState study filters" and
    "byLocationCity (study\<lparr>protocolSection := (protocolSection study)\<lparr>oversightModule := om\<rparr>\<rparr>) filters = byLocationCity study filters" and
    "byEnrollmentMin (study\<lparr>protocolSection := (protocolSection study)\<lparr>oversightModule := om\<rparr>\<rparr>) filters = byEnrollmentMin study filters" and
    "byEnrollmentMax (study\<lparr>protocolSection := (protocolSection study)\<lparr>oversightModule := om\<rparr>\<rparr>) filters = byEnrollmentMax study filters" and
    "byStartDateAfter (study\<lparr>protocolSection := (protocolSection study)\<lparr>oversightModule := om\<rparr>\<rparr>) filters = byStartDateAfter study filters" and
    "byStartDateBefore (study\<lparr>protocolSection := (protocolSection study)\<lparr>oversightModule := om\<rparr>\<rparr>) filters = byStartDateBefore study filters" and
    "byCompletionDateAfter (study\<lparr>protocolSection := (protocolSection study)\<lparr>oversightModule := om\<rparr>\<rparr>) filters = byCompletionDateAfter study filters" and
    "byCompletionDateBefore (study\<lparr>protocolSection := (protocolSection study)\<lparr>oversightModule := om\<rparr>\<rparr>) filters = byCompletionDateBefore study filters" and
    "byInterventionType (study\<lparr>protocolSection := (protocolSection study)\<lparr>oversightModule := om\<rparr>\<rparr>) filters = byInterventionType study filters" and
    "byHasResults (study\<lparr>protocolSection := (protocolSection study)\<lparr>oversightModule := om\<rparr>\<rparr>) filters = byHasResults study filters" and
    "byStudyType (study\<lparr>protocolSection := (protocolSection study)\<lparr>oversightModule := om\<rparr>\<rparr>) filters = byStudyType study filters" and
    "bySex (study\<lparr>protocolSection := (protocolSection study)\<lparr>oversightModule := om\<rparr>\<rparr>) filters = bySex study filters" and
    "byHealthyVolunteers (study\<lparr>protocolSection := (protocolSection study)\<lparr>oversightModule := om\<rparr>\<rparr>) filters = byHealthyVolunteers study filters" and
    "bySponsorClass (study\<lparr>protocolSection := (protocolSection study)\<lparr>oversightModule := om\<rparr>\<rparr>) filters = bySponsorClass study filters" and
    "byAllocation (study\<lparr>protocolSection := (protocolSection study)\<lparr>oversightModule := om\<rparr>\<rparr>) filters = byAllocation study filters" and
    "byInterventionModel (study\<lparr>protocolSection := (protocolSection study)\<lparr>oversightModule := om\<rparr>\<rparr>) filters = byInterventionModel study filters" and
    "byPrimaryPurpose (study\<lparr>protocolSection := (protocolSection study)\<lparr>oversightModule := om\<rparr>\<rparr>) filters = byPrimaryPurpose study filters" and
    "byMinAge (study\<lparr>protocolSection := (protocolSection study)\<lparr>oversightModule := om\<rparr>\<rparr>) filters = byMinAge study filters" and
    "byMaxAge (study\<lparr>protocolSection := (protocolSection study)\<lparr>oversightModule := om\<rparr>\<rparr>) filters = byMaxAge study filters" and
    "byAgeGroups (study\<lparr>protocolSection := (protocolSection study)\<lparr>oversightModule := om\<rparr>\<rparr>) filters = byAgeGroups study filters" and
    "byMasking (study\<lparr>protocolSection := (protocolSection study)\<lparr>oversightModule := om\<rparr>\<rparr>) filters = byMasking study filters" and
    "byKeyword (study\<lparr>protocolSection := (protocolSection study)\<lparr>oversightModule := om\<rparr>\<rparr>) filters = byKeyword study filters"
  by (simp_all add: by_defs of_defs cong: option.case_cong)

lemma enrollment_bounds_irrelevant:
  shows "byPhase study (filters\<lparr>enrollmentMin := lo, enrollmentMax := hi\<rparr>) = byPhase study filters" and
    "byLocationCountry study (filters\<lparr>enrollmentMin := lo, enrollmentMax := hi\<rparr>) = byLocationCountry study filters" and
    "byLocationState study (filters\<lparr>enrollmentMin := lo, enrollmentMax := hi\<rparr>) = byLocationState study filters" and
    "byLocationCity study (filters\<lparr>enrollmentMin := lo, enrollmentMax := hi\<rparr>) = byLocationCity study filters" and
    "byStartDateAfter study (filters\<lparr>enrollmentMin := lo, enrollmentMax := hi\<rparr>) = byStartDateAfter study filters" and
    "byStartDateBefore study (filters\<lparr>enrollmentMin := lo, enrollmentMax := hi\<rparr>) = byStartDateBefore study filters" and
    "byCompletionDateAfter study (filters\<lparr>enrollmentMin := lo, enrollmentMax := hi\<rparr>) = byCompletionDateAfter study filters" and
    "byCompletionDateBefore study (filters\<lparr>enrollmentMin := lo, enrollmentMax := hi\<rparr>) = byCompletionDateBefore study filters" and
    "byInterventionType study (filters\<lparr>enrollmentMin := lo, enrollmentMax := hi\<rparr>) = byInterventionType study filters" and
    "byHasResults study (filters\<lparr>enrollmentMin := lo, enrollmentMax := hi\<rparr>) = byHasResults study filters" and
    "byStudyType study (filters\<lparr>enrollmentMin := lo, enrollmentMax := hi\<rparr>) = byStudyType study filters" and
    "bySex study (filters\<lparr>enrollmentMin := lo, enrollmentMax := hi\<rparr>) = bySex study filters" and
    "byHealthyVolunteers study (filters\<lparr>enrollmentMin := lo, enrollmentMax := hi\<rparr>) = byHealthyVolunteers study filters" and
    "bySponsorClass study (filters\<lparr>enrollmentMin := lo, enrollmentMax := hi\<rparr>) = bySponsorClass study filters" and
    "byAllocation study (filters\<lparr>enrollmentMin := lo, enrollmentMax := hi\<rparr>) = byAllocation study filters" and
    "byInterventionModel study (filters\<lparr>enrollmentMin := lo, enrollmentMax := hi\<rparr>) = byInterventionModel study filters" and
    "byPrimaryPurpose study (filters\<lparr>enrollmentMin := lo, enrollmentMax := hi\<rparr>) = byPrimaryPurpose study filters" and
    "byMinAge study (filters\<lparr>enrollmentMin := lo, enrollmentMax := hi\<rparr>) = byMinAge study filters" and
    "byMaxAge study (filters\<lparr>enrollmentMin := lo, enrollmentMax := hi\<rparr>) = byMaxAge study filters" and
    "byAgeGroups study (filters\<lparr>enrollmentMin := lo, enrollmentMax := hi\<rparr>) = byAgeGroups study filters" and
    "byMasking study (filters\<lparr>enrollmentMin := lo, enrollmentMax := hi\<rparr>) = byMasking study filters" and
    "byFdaRegulated study (filters\<lparr>enrollmentMin := lo, enrollmentMax := hi\<rparr>) = byFdaRegulated study filters" and
    "byKeyword study (filters\<lparr>enrollmentMin := lo, enrollmentMax := hi\<rparr>) = byKeyword study filters"
  by (simp_all add: by_defs of_defs cong: option.case_cong)

subsection \<open>Idempotence\<close>

text \<open>
  Claim C3. For every list of records \<open>S\<close> and criteria \<open>C\<close>, filtering twice is
  filtering once; the result is a subsequence of \<open>S\<close> (the order is kept) and holds
  exactly the records of \<open>S\<close> on which \<open>matches\<close> holds. \<open>matches\<close> is a function
  of the record and the criteria only.
\<close>

theorem filterStudies_idempotent:
  "filterStudies (filterStudies S C) C = filterStudies S C
   \<and> subseq (filterStudies S C) S
   \<and> set (filterStudies S C) = {s \<in> set S. matches s C}"
  by (auto simp: filterStudies_def)

text \<open>Two records, one with posted results: filtering once or twice keeps that one.\<close>

theorem filterStudies_idempotent_witness:
  "filterStudies (filterStudies [minimalStudy ''NCT1'', designedStudy ''NCT2'']
       (noFilters\<lparr>hasResults_f := Some True\<rparr>)) (noFilters\<lparr>hasResults_f := Some True\<rparr>)
     = [designedStudy ''NCT2'']"
proof -
  have "filterStudies [minimalStudy ''NCT1'', designedStudy ''NCT2'']
          (noFilters\<lparr>hasResults_f := Some True\<rparr>) = [designedStudy ''NCT2'']"
    by (simp add: filterStudies_def matches_def by_defs of_defs example_defs)
  then show ?thesis
    using filterStudies_idempotent [of "[minimalStudy ''NCT1'', designedStudy ''NCT2'']"
        "noFilters\<lparr>hasResults_f := Some True\<rparr>"]
    by simp
qed

subsection \<open>The FDA-regulated filter\<close>

text \<open>
  Claim C1. A record without \<open>oversightModule\<close> is rejected by \<open>matches\<close>, and left
  out by \<open>filterStudies\<close>, whenever \<open>fdaRegulated\<close> is specified, whether
  \<open>true\<close> or \<open>false\<close>. When \<open>fdaRegulated\<close> is unspecified the block passes and
  \<open>matches\<close> does not depend on the \<open>oversightModule\<close> of the record at all.
\<close>

theorem fdaRegulated_fails_closed:
  assumes "oversightModule (protocolSection study) = None"
  shows "(fdaRegulated filters \<noteq> None \<longrightarrow>
            \<not> matches study filters \<and> study \<notin> set (filterStudies records filters))
       \<and> (fdaRegulated filters = None \<longrightarrow>
            byFdaRegulated study filters
            \<and> (\<forall>om. matches
                  (study\<lparr>protocolSection := (protocolSection study)\<lparr>oversightModule := om\<rparr>\<rparr>)
                  filters = matches study filters))"
proof (intro conjI impI allI)
  assume spec: "fdaRegulated filters \<noteq> None"
  with assms have "\<not> byFdaRegulated study filters"
    by (auto simp: byFdaRegulated_def)
  then show nm: "\<not> matches study filters"
    by (simp add: matches_def)
  then show "study \<notin> set (filterStudies records filters)"
    by (simp add: filterStudies_def)
next
  assume "fdaRegulated filters = None"
  then show "byFdaRegulated study filters"
    by (simp add: byFdaRegulated_def)
next
  fix om
  assume "fdaRegulated filters = None"
  then show "matches (study\<lparr>protocolSection := (protocolSection study)\<lparr>oversightModule := om\<rparr>\<rparr>)
               filters = matches study filters"
    by (simp add: matches_def oversight_irrelevant byFdaRegulated_def)
qed

text \<open>
  The study without oversight data is rejected under \<open>fdaRegulated = false\<close> and
  accepted by the empty criteria.
\<close>

theorem fdaRegulated_fails_closed_witness:
  "oversightModule (protocolSection (minimalStudy ''NCT1'')) = None
   \<and> \<not> matches (minimalStudy ''NCT1'') (noFilters\<lparr>fdaRegulated := Some False\<rparr>)
   \<and> minimalStudy ''NCT1'' \<notin> set (filterStudies [minimalStudy ''NCT1'']
          (noFilters\<lparr>fdaRegulated := Some False\<rparr>))
   \<and> matches (minimalStudy ''NCT1'') noFilters"
proof -
  have h: "oversightModule (protocolSection (minimalStudy ''NCT1'')) = None"
    by (simp add: minimalStudy_def)
  have m: "matches (minimalStudy ''NCT1'') noFilters"
    by (simp add: matches_def by_defs of_defs example_defs)
  show ?thesis
    using h m fdaRegulated_fails_closed [OF h, of "noFilters\<lparr>fdaRegulated := Some False\<rparr>"
        "[minimalStudy ''NCT1'']"]
    by simp
qed

text \<open>
  The block of the earlier revision passes such a record, for every value of
  \<open>fdaRegulated\<close>.
\<close>

lemma byFdaRegulated_part_005_skips:
  assumes "oversightModule (protocolSection study) = None"
  shows "byFdaRegulated_part_005 study filters"
  using assms by (simp add: byFdaRegulated_part_005_def split: option.splits)

subsection \<open>The enrollment range\<close>

text \<open>
  Claim C5 as stated fails: the enrollment blocks are guarded by
  \<^verbatim>\<open>enrollment !== undefined\<close>, so a record without an enrollment count passes a
  criteria that sets \<open>enrollmentMin\<close>.
\<close>

theorem enrollment_missing_counterexample:
  "enrollment_of (minimalStudy ''NCT1'') = None
   \<and> enrollmentMin (noFilters\<lparr>enrollmentMin := Some 100\<rparr>) = Some 100
   \<and> matches (minimalStudy ''NCT1'') (noFilters\<lparr>enrollmentMin := Some 100\<rparr>)"
  by (simp add: matches_def by_defs of_defs example_defs)

text \<open>
  Claim C5, amended. A record without an enrollment count passes both enrollment blocks, and
  \<open>matches\<close> is then what it is without the two bounds. A record with a count \<open>n\<close>
  passes the lower bound \<open>lo\<close> exactly when \<open>lo \<le> n\<close> and the upper bound \<open>hi\<close>
  exactly when \<open>n \<le> hi\<close> (both inclusive), and \<open>matches\<close> requires both blocks.
\<close>

theorem enrollment_range_filter:
  "(enrollment_of study = None \<longrightarrow>
      byEnrollmentMin study filters \<and> byEnrollmentMax study filters
      \<and> matches study filters
          = matches study (filters\<lparr>enrollmentMin := None, enrollmentMax := None\<rparr>))
   \<and> (enrollment_of study = Some n \<and> enrollmentMin filters = Some lo \<longrightarrow>
        byEnrollmentMin study filters = (lo \<le> n))
   \<and> (enrollment_of study = Some n \<and> enrollmentMax filters = Some hi \<longrightarrow>
        byEnrollmentMax study filters = (n \<le> hi))
   \<and> (matches study filters \<longrightarrow>
        byEnrollmentMin study filters \<and> byEnrollmentMax study filters)"
proof (intro conjI impI)
  assume none: "enrollment_of study = None"
  show "byEnrollmentMin study filters"
    using none by (simp add: byEnrollmentMin_def split: option.splits)
  show "byEnrollmentMax study filters"
    using none by (simp add: byEnrollmentMax_def split: option.splits)
  have "byEnrollmentMin study (filters\<lparr>enrollmentMin := None, enrollmentMax := None\<rparr>)"
       "byEnrollmentMax study (filters\<lparr>enrollmentMin := None, enrollmentMax := None\<rparr>)"
    by (simp_all add: byEnrollmentMin_def byEnrollmentMax_def)
  then show "matches study filters
      = matches study (filters\<lparr>enrollmentMin := None, enrollmentMax := None\<rparr>)"
    using \<open>byEnrollmentMin study filters\<close> \<open>byEnrollmentMax study filters\<close>
    by (simp add: matches_def enrollment_bounds_irrelevant)
next
  assume "enrollment_of study = Some n \<and> enrollmentMin filters = Some lo"
  then show "byEnrollmentMin study filters = (lo \<le> n)"
    by (auto simp: byEnrollmentMin_def)
next
  assume "enrollment_of study = Some n \<and> enrollmentMax filters = Some hi"
  then show "byEnrollmentMax study filters = (n \<le> hi)"
    by (auto simp: byEnrollmentMax_def)
next
  assume "matches study filters"
  then show "byEnrollmentMin study filters" "byEnrollmentMax study filters"
    by (simp_all add: matches_def)
qed

text \<open>
  A record without a count under the bounds 100 and 250, and a record with count 250 under
  the same bounds and under the upper bound 249.
\<close>

theorem enrollment_range_filter_witness:
  "enrollment_of (minimalStudy ''NCT1'') = None
   \<and> matches (minimalStudy ''NCT1'')
        (noFilters\<lparr>enrollmentMin := Some 100, enrollmentMax := Some 250\<rparr>)
   \<and> enrollment_of (designedStudy ''NCT2'') = Some 250
   \<and> matches (designedStudy ''NCT2'')
        (noFilters\<lparr>enrollmentMin := Some 100, enrollmentMax := Some 250\<rparr>)
   \<and> byEnrollmentMin (designedStudy ''NCT2'')
        (noFilters\<lparr>enrollmentMin := Some 100, enrollmentMax := Some 250\<rparr>)
   \<and> byEnrollmentMax (designedStudy ''NCT2'')
        (noFilters\<lparr>enrollmentMin := Some 100, enrollmentMax := Some 250\<rparr>)
   \<and> \<not> byEnrollmentMax (designedStudy ''NCT2'') (noFilters\<lparr>enrollmentMax := Some 249\<rparr>)"
proof -
  let ?f = "noFilters\<lparr>enrollmentMin := Some 100, enrollmentMax := Some 250\<rparr>"
  have e1: "enrollment_of (minimalStudy ''NCT1'') = None"
    by (simp add: of_defs example_defs)
  have e2: "enrollment_of (designedStudy ''NCT2'') = Some 250"
    by (simp add: of_defs example_defs)
  have m0: "matches (minimalStudy ''NCT1'') (?f\<lparr>enrollmentMin := None, enrollmentMax := None\<rparr>)"
    by (simp add: matches_def by_defs of_defs example_defs)
  have m2: "matches (designedStudy ''NCT2'') ?f"
    by (simp add: matches_def by_defs of_defs example_defs)
  have f1: "enrollmentMin ?f = Some 100" "enrollmentMax ?f = Some 250"
    by (simp_all add: example_defs)
  have f2: "enrollmentMax (noFilters\<lparr>enrollmentMax := Some 249\<rparr>) = Some 249"
    by simp
  show ?thesis
    using e1 e2 m0 m2 f1 f2
      enrollment_range_filter [of "minimalStudy ''NCT1''" ?f 0 0 0]
      enrollment_range_filter [of "designedStudy ''NCT2''" ?f 250 100 250]
      enrollment_range_filter [of "designedStudy ''NCT2''"
         "noFilters\<lparr>enrollmentMax := Some 249\<rparr>" 250 0 249]
    by simp
qed

subsection \<open>The age filters\<close>

text \<open>
  Claim C10. Whenever \<open>minAge\<close> (respectively \<open>maxAge\<close>) is specified, \<open>matches\<close>
  rejects every record whose \<open>minimumAge\<close> (respectively \<open>maximumAge\<close>) is absent or
  is the string \<open>N/A\<close>. A criterion is specified when the guard of its block,
  \<^verbatim>\<open>if (filters.minAge)\<close> (respectively \<^verbatim>\<open>if (filters.maxAge)\<close>), holds: it is
  present and has at least one character, which is \<open>truthy_str\<close>.
\<close>

theorem age_filters_fail_closed:
  "(truthy_str (minAge filters)
      \<and> Option.bind (eligibilityModule (protocolSection study)) minimumAge \<in> {None, Some ''N/A''}
      \<longrightarrow> \<not> matches study filters)
   \<and> (truthy_str (maxAge filters)
      \<and> Option.bind (eligibilityModule (protocolSection study)) maximumAge \<in> {None, Some ''N/A''}
      \<longrightarrow> \<not> matches study filters)"
proof (intro conjI impI)
  assume "truthy_str (minAge filters)
      \<and> Option.bind (eligibilityModule (protocolSection study)) minimumAge \<in> {None, Some ''N/A''}"
  then have "\<not> byMinAge study filters"
    by (auto simp: byMinAge_def)
  then show "\<not> matches study filters"
    by (simp add: matches_def)
next
  assume "truthy_str (maxAge filters)
      \<and> Option.bind (eligibilityModule (protocolSection study)) maximumAge \<in> {None, Some ''N/A''}"
  then have "\<not> byMaxAge study filters"
    by (auto simp: byMaxAge_def)
  then show "\<not> matches study filters"
    by (simp add: matches_def)
qed

text \<open>The study without eligibility data under \<open>minAge\<close> and under \<open>maxAge\<close>.\<close>

theorem age_filters_fail_closed_witness:
  "truthy_str (minAge (noFilters\<lparr>minAge := Some ''18 Years''\<rparr>))
   \<and> \<not> matches (minimalStudy ''NCT1'') (noFilters\<lparr>minAge := Some ''18 Years''\<rparr>)
   \<and> truthy_str (maxAge (noFilters\<lparr>maxAge := Some ''65 Years''\<rparr>))
   \<and> \<not> matches (minimalStudy ''NCT1'') (noFilters\<lparr>maxAge := Some ''65 Years''\<rparr>)"
proof -
  have e: "Option.bind (eligibilityModule (protocolSection (minimalStudy ''NCT1''))) minimumAge
             \<in> {None, Some ''N/A''}"
          "Option.bind (eligibilityModule (protocolSection (minimalStudy ''NCT1''))) maximumAge
             \<in> {None, Some ''N/A''}"
    by (simp_all add: minimalStudy_def)
  show ?thesis
    using e age_filters_fail_closed [of "noFilters\<lparr>minAge := Some ''18 Years''\<rparr>"
             "minimalStudy ''NCT1''"]
      age_filters_fail_closed [of "noFilters\<lparr>maxAge := Some ''65 Years''\<rparr>"
             "minimalStudy ''NCT1''"]
    by simp
qed

subsection \<open>The enumeration filters\<close>

text \<open>
  Claim C4 as stated fails: the study-type block upper-cases both sides and replaces no
  separator, so the criteria \<open>Expanded Access\<close> does not match the stored value
  \<open>EXPANDED_ACCESS\<close>, although the two are equal after separator normalization.
\<close>

theorem enum_separator_counterexample:
  "replaceSpaces (toUpperCase ''Expanded Access'') = replaceSpaces (toUpperCase ''EXPANDED_ACCESS'')
   \<and> Option.bind (designModule (protocolSection (designedStudy ''NCT2''))) studyType
       = Some ''EXPANDED_ACCESS''
   \<and> matches (designedStudy ''NCT2'') noFilters
   \<and> \<not> matches (designedStudy ''NCT2'') (noFilters\<lparr>studyType_f := Some ''Expanded Access''\<rparr>)"
  by (simp add: matches_def by_defs of_defs example_defs case_defs)

text \<open>
  Claim C4, amended. Under a non-empty criteria value, the allocation, intervention-model
  and primary-purpose blocks pass exactly when the record has the field and the two values
  are equal after upper-casing and replacing each space by an underscore; the study-type,
  sex, masking and sponsor-class blocks pass exactly when the record has the field and the
  two values are equal after upper-casing alone. \<open>matches\<close> requires all seven blocks.
\<close>

theorem enum_filters_normalization:
  "(allocation_f filters = Some a \<and> a \<noteq> [] \<longrightarrow>
      byAllocation study filters
      = (\<exists>v. Option.bind (designInfo_of study) allocation = Some v
             \<and> replaceSpaces (toUpperCase v) = replaceSpaces (toUpperCase a)))
   \<and> (interventionModel_f filters = Some im \<and> im \<noteq> [] \<longrightarrow>
      byInterventionModel study filters
      = (\<exists>v. Option.bind (designInfo_of study) interventionModel = Some v
             \<and> replaceSpaces (toUpperCase v) = replaceSpaces (toUpperCase im)))
   \<and> (primaryPurpose_f filters = Some pp \<and> pp \<noteq> [] \<longrightarrow>
      byPrimaryPurpose study filters
      = (\<exists>v. Option.bind (designInfo_of study) primaryPurpose = Some v
             \<and> replaceSpaces (toUpperCase v) = replaceSpaces (toUpperCase pp)))
   \<and> (studyType_f filters = Some st \<and> st \<noteq> [] \<longrightarrow>
      byStudyType study filters
      = (\<exists>v. Option.bind (designModule (protocolSection study)) studyType = Some v
             \<and> toUpperCase v = toUpperCase st))
   \<and> (sex_f filters = Some sx \<and> sx \<noteq> [] \<longrightarrow>
      bySex study filters
      = (\<exists>v. Option.bind (eligibilityModule (protocolSection study)) sex = Some v
             \<and> toUpperCase v = toUpperCase sx))
   \<and> (masking_f filters = Some mk \<and> mk \<noteq> [] \<longrightarrow>
      byMasking study filters
      = (\<exists>v. Option.bind (Option.bind (designInfo_of study) maskingInfo) masking = Some v
             \<and> toUpperCase v = toUpperCase mk))
   \<and> (sponsorClass filters = Some sc \<and> sc \<noteq> [] \<longrightarrow>
      bySponsorClass study filters
      = (\<exists>v. Option.bind (Option.bind (sponsorCollaboratorsModule (protocolSection study))
                 leadSponsor) class' = Some v
             \<and> toUpperCase v = toUpperCase sc))
   \<and> (matches study filters \<longrightarrow>
        byAllocation study filters \<and> byInterventionModel study filters
        \<and> byPrimaryPurpose study filters \<and> byStudyType study filters
        \<and> bySex study filters \<and> byMasking study filters \<and> bySponsorClass study filters)"
proof (intro conjI impI)
  assume "allocation_f filters = Some a \<and> a \<noteq> []"
  then show "byAllocation study filters
      = (\<exists>v. Option.bind (designInfo_of study) allocation = Some v
             \<and> replaceSpaces (toUpperCase v) = replaceSpaces (toUpperCase a))"
    by (auto simp: byAllocation_def)
next
  assume "interventionModel_f filters = Some im \<and> im \<noteq> []"
  then show "byInterventionModel study filters
      = (\<exists>v. Option.bind (designInfo_of study) interventionModel = Some v
             \<and> replaceSpaces (toUpperCase v) = replaceSpaces (toUpperCase im))"
    by (auto simp: byInterventionModel_def)
next
  assume "primaryPurpose_f filters = Some pp \<and> pp \<noteq> []"
  then show "byPrimaryPurpose study filters
      = (\<exists>v. Option.bind (designInfo_of study) primaryPurpose = Some v
             \<and> replaceSpaces (toUpperCase v) = replaceSpaces (toUpperCase pp))"
    by (auto simp: byPrimaryPurpose_def)
next
  assume "studyType_f filters = Some st \<and> st \<noteq> []"
  then show "byStudyType study filters
      = (\<exists>v. Option.bind (designModule (protocolSection study)) studyType = Some v
             \<and> toUpperCase v = toUpperCase st)"
    by (auto simp: byStudyType_def)
next
  assume "sex_f filters = Some sx \<and> sx \<noteq> []"
  then show "bySex study filters
      = (\<exists>v. Option.bind (eligibilityModule (protocolSection study)) sex = Some v
             \<and> toUpperCase v = toUpperCase sx)"
    by (auto simp: bySex_def)
next
  assume "masking_f filters = Some mk \<and> mk \<noteq> []"
  then show "byMasking study filters
      = (\<exists>v. Option.bind (Option.bind (designInfo_of study) maskingInfo) masking = Some v
             \<and> toUpperCase v = toUpperCase mk)"
    by (auto simp: byMasking_def)
next
  assume "sponsorClass filters = Some sc \<and> sc \<noteq> []"
  then show "bySponsorClass study filters
      = (\<exists>v. Option.bind (Option.bind (sponsorCollaboratorsModule (protocolSection study))
                 leadSponsor) class' = Some v
             \<and> toUpperCase v = toUpperCase sc)"
    by (auto simp: bySponsorClass_def)
next
  assume "matches study filters"
  then show "byAllocation study filters" "byInterventionModel study filters"
    "byPrimaryPurpose study filters" "byStudyType study filters"
    "bySex study filters" "byMasking study filters" "bySponsorClass study filters"
    by (simp_all add: matches_def)
qed

text \<open>
  The stored values \<open>Parallel Assignment\<close> and \<open>Randomized\<close> match the criteria
  \<open>PARALLEL_ASSIGNMENT\<close> and \<open>RANDOMIZED\<close>.
\<close>

theorem enum_filters_normalization_witness:
  "matches (designedStudy ''NCT2'') enumFilters
   \<and> Option.bind (designInfo_of (designedStudy ''NCT2'')) interventionModel
       = Some ''Parallel Assignment''
   \<and> interventionModel_f enumFilters = Some ''PARALLEL_ASSIGNMENT''
   \<and> byInterventionModel (designedStudy ''NCT2'') enumFilters
   \<and> Option.bind (designInfo_of (designedStudy ''NCT2'')) allocation = Some ''Randomized''
   \<and> allocation_f enumFilters = Some ''RANDOMIZED''
   \<and> byAllocation (designedStudy ''NCT2'') enumFilters
   \<and> byPrimaryPurpose (designedStudy ''NCT2'') enumFilters
   \<and> byStudyType (designedStudy ''NCT2'') enumFilters
   \<and> bySex (designedStudy ''NCT2'') enumFilters
   \<and> byMasking (designedStudy ''NCT2'') enumFilters
   \<and> bySponsorClass (designedStudy ''NCT2'') enumFilters"
proof -
  have m: "matches (designedStudy ''NCT2'') enumFilters"
    by (simp add: matches_def by_defs of_defs example_defs case_defs)
  have f: "allocation_f enumFilters = Some ''RANDOMIZED'' \<and> ''RANDOMIZED'' \<noteq> []"
    "interventionModel_f enumFilters = Some ''PARALLEL_ASSIGNMENT'' \<and> ''PARALLEL_ASSIGNMENT'' \<noteq> []"
    "primaryPurpose_f enumFilters = Some ''SUPPORTIVE_CARE'' \<and> ''SUPPORTIVE_CARE'' \<noteq> []"
    "studyType_f enumFilters = Some ''expanded_access'' \<and> ''expanded_access'' \<noteq> []"
    "sex_f enumFilters = Some ''FEMALE'' \<and> ''FEMALE'' \<noteq> []"
    "masking_f enumFilters = Some ''DOUBLE'' \<and> ''DOUBLE'' \<noteq> []"
    "sponsorClass enumFilters = Some ''OTHER_GOV'' \<and> ''OTHER_GOV'' \<noteq> []"
    by (simp_all add: example_defs)
  have s: "Option.bind (designInfo_of (designedStudy ''NCT2'')) interventionModel
             = Some ''Parallel Assignment''"
    "Option.bind (designInfo_of (designedStudy ''NCT2'')) allocation = Some ''Randomized''"
    by (simp_all add: of_defs example_defs)
  show ?thesis
    using m f s
      enum_filters_normalization [where study = "designedStudy ''NCT2''"
        and filters = enumFilters and a = "''RANDOMIZED''" and im = "''PARALLEL_ASSIGNMENT''"
        and pp = "''SUPPORTIVE_CARE''" and st = "''expanded_access''" and sx = "''FEMALE''"
        and mk = "''DOUBLE''" and sc = "''OTHER_GOV''"]
    by blast
qed

section \<open>Properties of the response cache\<close>

lemma map_of_serialized:
  "map_of (map (\<lambda>kv. (fst kv, f (snd kv))) fs) = map_option f \<circ> map_of fs"
  by (induction fs) auto

lemma serialize_object_map_of:
  assumes "map_of ps = map_of qs"
  shows "serializeJSONProperty (Some K) (JObj ps) = serializeJSONProperty (Some K) (JObj qs)"
  using assms by (simp add: map_of_serialized)

lemma sorted_keys_eq:
  assumes "distinct (map fst ps)" "distinct (map fst qs)" "set ps = set qs"
  shows "sort (map fst ps) = sort (map fst qs)"
proof (rule sorted_distinct_set_unique)
  show "sorted (sort (map fst ps))" "sorted (sort (map fst qs))" by simp_all
  show "distinct (sort (map fst ps))" "distinct (sort (map fst qs))"
    using assms by simp_all
  have "fst ` set ps = fst ` set qs" using assms(3) by simp
  then show "set (sort (map fst ps)) = set (sort (map fst qs))" by simp
qed

subsection \<open>The cache key\<close>

text \<open>
  Claim C7. Two parameter objects (each key once) that hold the same key-value pairs, in
  whatever order the properties were inserted, get the same key from \<open>generateKey\<close> under
  every prefix; so they have the same disk path, and \<open>get\<close> and \<open>set\<close> on one are
  \<open>get\<close> and \<open>set\<close> on the other.
\<close>

theorem generateKey_order_independent:
  assumes "distinct (map fst ps)" and "distinct (map fst qs)" and "set ps = set qs"
  shows "generateKey prefix' ps = generateKey prefix' qs
       \<and> getDiskCachePath this (generateKey prefix' ps)
           = getDiskCachePath this (generateKey prefix' qs)
       \<and> cache_get J this prefix' ps now = cache_get J this prefix' qs now
       \<and> cache_set J this prefix' ps v now = cache_set J this prefix' qs v now"
proof -
  have m: "map_of ps = map_of qs"
    using assms by (simp add: map_of_inject_set)
  have k: "generateKey prefix' ps = generateKey prefix' qs"
    unfolding generateKey_def
    using sorted_keys_eq [OF assms] serialize_object_map_of [OF m] by simp
  then show ?thesis
    by (simp add: cache_get_def cache_set_def)
qed

text \<open>
  The parameters \<open>pageSize\<close>, \<open>condition\<close> in both orders: the key is
  \<open>search:esa0a5\<close>.
\<close>

theorem generateKey_order_independent_witness:
  "distinct (map fst exampleParams) \<and> distinct (map fst exampleParams')
   \<and> set exampleParams = set exampleParams'
   \<and> generateKey ''search'' exampleParams = generateKey ''search'' exampleParams'
   \<and> generateKey ''search'' exampleParams' = ''search:esa0a5''"
proof -
  have d: "distinct (map fst exampleParams)" "distinct (map fst exampleParams')"
    "set exampleParams = set exampleParams'"
    by (auto simp: exampleParams_def exampleParams'_def)
  have e: "generateKey ''search'' exampleParams' = ''search:esa0a5''"
    by (simp add: generateKey_def exampleParams'_def hashString_def hashStep_def digitChar_def
        quoteJSONString_def quoteJSONChar_def numberToString_def toStringRadix.simps)
  show ?thesis
    using d e generateKey_order_independent [OF d, of "''search''"]
    by simp
qed

subsection \<open>Values and their JSON text\<close>



lemma object_members:
  assumes "distinct (map fst fs)"
  shows "concat (map (\<lambda>P. case map_of (map (\<lambda>kv. (fst kv, f (snd kv))) fs) P of
                            Some (Some strP) \<Rightarrow> [q P @ '':'' @ strP] | _ \<Rightarrow> []) (map fst fs))
       = concat (map (\<lambda>kv. case f (snd kv) of
                               Some strP \<Rightarrow> [q (fst kv) @ '':'' @ strP] | None \<Rightarrow> []) fs)"
proof -
  have "map_of (map (\<lambda>kv. (fst kv, f (snd kv))) fs) (fst kv) = Some (f (snd kv))"
    if "kv \<in> set fs" for kv
  proof -
    have "map_of fs (fst kv) = Some (snd kv)"
      using assms that by simp
    then show ?thesis
      by (simp add: map_of_serialized)
  qed
  then have "map (\<lambda>P. case map_of (map (\<lambda>kv. (fst kv, f (snd kv))) fs) P of
                            Some (Some strP) \<Rightarrow> [q P @ '':'' @ strP] | _ \<Rightarrow> []) (map fst fs)
       = map (\<lambda>kv. case f (snd kv) of
                               Some strP \<Rightarrow> [q (fst kv) @ '':'' @ strP] | None \<Rightarrow> []) fs"
    by (simp cong: option.case_cong)
  then show ?thesis by (rule arg_cong)
qed

lemma serialize_jsonImage:
  assumes "eachKeyOnce v"
  shows "serializeJSONProperty None (jsonImage v) = serializeJSONProperty None v"
  using assms
proof (induction v rule: jsonImage.induct)
  case (1 vs)
  have "(case serializeJSONProperty None (if x = JUndefined then JNull else jsonImage x) of
           None \<Rightarrow> ''null'' | Some str \<Rightarrow> str)
        = (case serializeJSONProperty None x of None \<Rightarrow> ''null'' | Some str \<Rightarrow> str)"
    if "x \<in> set vs" for x
  proof (cases "x = JUndefined")
    case True
    then show ?thesis by simp
  next
    case False
    from that "1.prems" have "eachKeyOnce x" by (simp add: list_all_iff)
    with that False "1.IH" show ?thesis by simp
  qed
  then show ?case by (simp add: comp_def cong: map_cong)
next
  case (2 fs)
  let ?fs' = "filter (\<lambda>kv. snd kv \<noteq> JUndefined) fs"
  let ?img = "map (\<lambda>kv. (fst kv, jsonImage (snd kv))) ?fs'"
  from "2.prems" have d: "distinct (map fst fs)" by simp
  then have d': "distinct (map fst ?fs')" by (rule distinct_map_filter)
  then have d'': "distinct (map fst ?img)" by (simp add: comp_def)
  have ih: "serializeJSONProperty None (jsonImage (snd kv)) = serializeJSONProperty None (snd kv)"
    if "kv \<in> set ?fs'" for kv
  proof -
    from that "2.prems" have "eachKeyOnce (snd kv)" by (simp add: list_all_iff)
    with that "2.IH" show ?thesis by simp
  qed
  have drop: "concat (map (\<lambda>kv. case serializeJSONProperty None (snd kv) of
                               Some strP \<Rightarrow> [quoteJSONString (fst kv) @ '':'' @ strP]
                             | None \<Rightarrow> []) xs)
       = concat (map (\<lambda>kv. case serializeJSONProperty None (snd kv) of
                               Some strP \<Rightarrow> [quoteJSONString (fst kv) @ '':'' @ strP]
                             | None \<Rightarrow> []) (filter (\<lambda>kv. snd kv \<noteq> JUndefined) xs))"
    for xs :: "(string \<times> jsval) list"
    by (induction xs) auto
  have "map (\<lambda>kv. case serializeJSONProperty None (snd kv) of
                        Some strP \<Rightarrow> [quoteJSONString (fst kv) @ '':'' @ strP]
                      | None \<Rightarrow> []) ?img
       = map (\<lambda>kv. case serializeJSONProperty None (snd kv) of
                        Some strP \<Rightarrow> [quoteJSONString (fst kv) @ '':'' @ strP]
                      | None \<Rightarrow> []) ?fs'"
    using ih by (simp add: comp_def cong: option.case_cong)
  then have "concat (map (\<lambda>kv. case serializeJSONProperty None (snd kv) of
                               Some strP \<Rightarrow> [quoteJSONString (fst kv) @ '':'' @ strP]
                             | None \<Rightarrow> []) ?img)
       = concat (map (\<lambda>kv. case serializeJSONProperty None (snd kv) of
                               Some strP \<Rightarrow> [quoteJSONString (fst kv) @ '':'' @ strP]
                             | None \<Rightarrow> []) ?fs')"
    by (rule arg_cong)
  then show ?case
    using object_members [OF d, where f = "serializeJSONProperty None" and q = quoteJSONString]
      object_members [OF d'', where f = "serializeJSONProperty None" and q = quoteJSONString]
      drop [of fs]
    by simp
qed simp_all

subsection \<open>The two tiers\<close>




section \<open>Properties of the record store and of refinement\<close>

lemma wf_db_resolve:
  assumes "wf_db J db" and "studies db k = Some row"
  shows "\<exists>study. JSON_parse J (raw_json row) = Inr study \<and> resolve J db k = Some study
           \<and> nctIdOf study = k"
proof -
  from assms obtain study where "JSON_parse J (raw_json row) = Inr study" "nctIdOf study = k"
    unfolding wf_db_def by blast
  with assms(2) show ?thesis
    by (simp add: resolve_def getStudy_def)
qed

lemma parseRows_join:
  assumes "\<forall>k row. studies db k = Some row \<longrightarrow>
             (\<exists>study. JSON_parse J (raw_json row) = Inr study \<and> nctIdOf study = k)"
    and "\<forall>sr \<in> set srs. studies db (snd sr) \<noteq> None"
  shows "\<exists>ss. parseRows J (map raw_json
            (List.map_filter (\<lambda>sr. if fst sr = sid then studies db (snd sr) else None) srs))
          = Inr ss
        \<and> map nctIdOf ss = map snd (filter (\<lambda>sr. fst sr = sid) srs)
        \<and> ss = List.map_filter (resolve J db) (map snd (filter (\<lambda>sr. fst sr = sid) srs))"
  using assms(2)
proof (induction srs)
  case Nil
  then show ?case by (simp add: List.map_filter_simps)
next
  case (Cons sr srs)
  then obtain ss where ss: "parseRows J (map raw_json
            (List.map_filter (\<lambda>sr. if fst sr = sid then studies db (snd sr) else None) srs))
          = Inr ss"
        "map nctIdOf ss = map snd (filter (\<lambda>sr. fst sr = sid) srs)"
        "ss = List.map_filter (resolve J db) (map snd (filter (\<lambda>sr. fst sr = sid) srs))"
    by auto
  show ?case
  proof (cases "fst sr = sid")
    case False
    with ss show ?thesis by (simp add: List.map_filter_simps)
  next
    case True
    from Cons.prems obtain row where row: "studies db (snd sr) = Some row" by auto
    with assms(1) obtain study where st: "JSON_parse J (raw_json row) = Inr study"
      "nctIdOf study = snd sr" by blast
    then have "resolve J db (snd sr) = Some study"
      using row by (simp add: resolve_def getStudy_def)
    with True row st ss show ?thesis
      by (simp add: List.map_filter_simps)
  qed
qed

lemma getSessionResults_wf:
  assumes "wf_db J db"
  shows "\<exists>ss. getSessionResults J db sid = Inr ss
        \<and> map nctIdOf ss = sessionIds db sid
        \<and> ss = List.map_filter (resolve J db) (sessionIds db sid)"
  using parseRows_join [of db J "session_results db" sid] assms
  by (simp add: getSessionResults_def sessionIds_def wf_db_def)

lemma insertResult_wf:
  assumes "wf_db J db" and "insertResult db sid k = Inr db'"
  shows "wf_db J db'"
proof -
  from assms(2) have new: "(sid, k) \<notin> set (session_results db)"
    "search_sessions db sid \<noteq> None" "studies db k \<noteq> None"
    "db' = db\<lparr>session_results := session_results db @ [(sid, k)]\<rparr>"
    by (auto simp: insertResult_def split: if_splits)
  from assms(1) have old: "distinct (session_results db)"
    "\<forall>sr \<in> set (session_results db).
        search_sessions db (fst sr) \<noteq> None \<and> studies db (snd sr) \<noteq> None"
    "\<forall>k row. studies db k = Some row \<longrightarrow>
        (\<exists>study. JSON_parse J (raw_json row) = Inr study \<and> nctIdOf study = k)"
    by (simp_all add: wf_db_def)
  have "distinct (session_results db')"
    using new old(1) by simp
  moreover have "\<forall>sr \<in> set (session_results db').
        search_sessions db' (fst sr) \<noteq> None \<and> studies db' (snd sr) \<noteq> None"
    using new old(2) by simp
  moreover have "\<forall>k row. studies db' k = Some row \<longrightarrow>
        (\<exists>study. JSON_parse J (raw_json row) = Inr study \<and> nctIdOf study = k)"
    using new(4) old(3) by simp
  ultimately show ?thesis
    by (simp add: wf_db_def)
qed

lemma insertResults_wf:
  assumes "wf_db J db"
  shows "wf_db J (snd (insertResults db sid ks))"
  using assms
proof (induction ks arbitrary: db)
  case Nil
  then show ?case by simp
next
  case (Cons k ks)
  show ?case
  proof (cases "insertResult db sid k")
    case (Inl e)
    with Cons.prems show ?thesis by simp
  next
    case (Inr db')
    with Cons.prems have "wf_db J db'" by (rule insertResult_wf)
    with Inr Cons.IH show ?thesis by simp
  qed
qed

lemma insertResults_studies:
  "studies (snd (insertResults db sid ks)) = studies db
   \<and> search_sessions (snd (insertResults db sid ks)) = search_sessions db"
proof (induction ks arbitrary: db)
  case Nil
  then show ?case by simp
next
  case (Cons k ks)
  show ?case
  proof (cases "insertResult db sid k")
    case (Inl e)
    then show ?thesis by simp
  next
    case (Inr db')
    then have "studies db' = studies db \<and> search_sessions db' = search_sessions db"
      by (auto simp: insertResult_def split: if_splits)
    with Inr Cons.IH [of db'] show ?thesis by simp
  qed
qed

lemma insertResults_ok:
  assumes "search_sessions db sid \<noteq> None"
    and "distinct ks"
    and "\<forall>k \<in> set ks. studies db k \<noteq> None \<and> (sid, k) \<notin> set (session_results db)"
  shows "insertResults db sid ks
         = (None, db\<lparr>session_results := session_results db @ map (Pair sid) ks\<rparr>)"
  using assms
proof (induction ks arbitrary: db)
  case Nil
  then show ?case by simp
next
  case (Cons k ks)
  let ?db' = "db\<lparr>session_results := session_results db @ [(sid, k)]\<rparr>"
  from Cons.prems have ins: "insertResult db sid k = Inr ?db'"
    by (simp add: insertResult_def)
  have "insertResults ?db' sid ks
        = (None, ?db'\<lparr>session_results := session_results ?db' @ map (Pair sid) ks\<rparr>)"
  proof (rule Cons.IH)
    show "search_sessions ?db' sid \<noteq> None" using Cons.prems by simp
    show "distinct ks" using Cons.prems by simp
    show "\<forall>k' \<in> set ks. studies ?db' k' \<noteq> None \<and> (sid, k') \<notin> set (session_results ?db')"
      using Cons.prems by auto
  qed
  with ins show ?case by simp
qed

lemma updateSessionResults_wf:
  assumes "wf_db J db"
  shows "wf_db J (snd (updateSessionResults db sid ks))"
proof -
  have "wf_db J (db\<lparr>session_results := filter (\<lambda>sr. fst sr \<noteq> sid) (session_results db)\<rparr>)"
    using assms by (auto simp: wf_db_def)
  then show ?thesis
    unfolding updateSessionResults_def by (rule insertResults_wf)
qed

lemma createSession_wf:
  assumes "wf_db J db"
  shows "wf_db J (snd (createSession db sid params ks))"
proof (cases "search_sessions db sid")
  case (Some a)
  with assms show ?thesis by (simp add: createSession_def)
next
  case None
  have "wf_db J (db\<lparr>search_sessions := (search_sessions db)(sid \<mapsto> t)\<rparr>)" for t
    using assms by (auto simp: wf_db_def)
  with None show ?thesis
    by (simp add: createSession_def insertResults_wf)
qed

lemma raw_json_studyRow:
  "raw_json (studyRow J study) = JSON_stringify J study"
  by (simp add: studyRow_def Let_def)

lemma upsertStudy_wf:
  assumes "wf_db J db" and "JSON_parse J (JSON_stringify J study) = Inr study"
  shows "wf_db J (upsertStudy J db study)"
proof -
  from assms(1) have old: "distinct (session_results db)"
    "\<forall>sr \<in> set (session_results db).
        search_sessions db (fst sr) \<noteq> None \<and> studies db (snd sr) \<noteq> None"
    "\<forall>k row. studies db k = Some row \<longrightarrow>
        (\<exists>study. JSON_parse J (raw_json row) = Inr study \<and> nctIdOf study = k)"
    by (simp_all add: wf_db_def)
  let ?db' = "upsertStudy J db study"
  have "distinct (session_results ?db')"
    using old(1) by (simp add: upsertStudy_def)
  moreover have "\<forall>sr \<in> set (session_results ?db').
        search_sessions ?db' (fst sr) \<noteq> None \<and> studies ?db' (snd sr) \<noteq> None"
    using old(2) by (simp add: upsertStudy_def)
  moreover have "\<forall>k row. studies ?db' k = Some row \<longrightarrow>
        (\<exists>study. JSON_parse J (raw_json row) = Inr study \<and> nctIdOf study = k)"
    using old(3) assms(2) by (auto simp: upsertStudy_def raw_json_studyRow)
  ultimately show ?thesis
    by (simp add: wf_db_def)
qed

lemma refine_results_wf:
  assumes "wf_db J db"
  shows "wf_db J (snd (refine_results J db sid f))"
proof (cases "getSessionResults J db sid")
  case (Inl e)
  with assms show ?thesis by (simp add: refine_results_def)
next
  case (Inr ss)
  show ?thesis
  proof (cases "ss = []")
    case True
    with Inr assms show ?thesis by (simp add: refine_results_def)
  next
    case False
    have "wf_db J (snd (updateSessionResults db sid (map nctIdOf (filterStudies ss f))))"
      using assms by (rule updateSessionResults_wf)
    with Inr False show ?thesis
      by (auto simp: refine_results_def Let_def split: prod.splits option.splits)
  qed
qed

lemma wf_emptyDb: "wf_db J emptyDb"
  by (simp add: wf_db_def emptyDb_def)

text \<open>The invariant holds in every store that the operations produce.\<close>

lemma reachable_wf:
  assumes "reachable J db"
  shows "wf_db J db"
  using assms
proof (induction rule: reachable.induct)
  case reachable_empty
  show ?case by (rule wf_emptyDb)
next
  case (reachable_upsert db study)
  then show ?case by (intro upsertStudy_wf)
next
  case (reachable_create db sessionId searchParams nctIds)
  then show ?case by (intro createSession_wf)
next
  case (reachable_update db sessionId nctIds)
  then show ?case by (intro updateSessionResults_wf)
next
  case (reachable_refine db sessionId filterParams)
  then show ?case by (intro refine_results_wf)
qed

lemma sessionIds_distinct:
  assumes "distinct (session_results db)"
  shows "distinct (sessionIds db sid)"
proof -
  have "inj_on snd (set (filter (\<lambda>sr. fst sr = sid) (session_results db)))"
    by (auto simp: inj_on_def)
  with assms show ?thesis
    by (simp add: sessionIds_def distinct_map)
qed


lemma sessionIds_replace:
  "sessionIds (db\<lparr>session_results :=
       filter (\<lambda>sr. fst sr \<noteq> sid) (session_results db) @ map (Pair sid) ks\<rparr>) sid'
   = (if sid' = sid then ks else sessionIds db sid')"
proof -
  have a: "map snd (filter (\<lambda>sr. fst sr = sid') (filter (\<lambda>sr. fst sr \<noteq> sid) xs))
           = (if sid' = sid then [] else map snd (filter (\<lambda>sr. fst sr = sid') xs))"
    for xs :: "(string \<times> string) list"
    by (induction xs) auto
  have b: "map snd (filter (\<lambda>sr. fst sr = sid') (map (Pair sid) ks))
           = (if sid' = sid then ks else [])"
    by (induction ks) auto
  have "sessionIds (db\<lparr>session_results :=
       filter (\<lambda>sr. fst sr \<noteq> sid) (session_results db) @ map (Pair sid) ks\<rparr>) sid'
     = map snd (filter (\<lambda>sr. fst sr = sid') (filter (\<lambda>sr. fst sr \<noteq> sid) (session_results db)))
       @ map snd (filter (\<lambda>sr. fst sr = sid') (map (Pair sid) ks))"
    unfolding sessionIds_def by simp
  also have "\<dots> = (if sid' = sid then ks else sessionIds db sid')"
    unfolding a b by (simp add: sessionIds_def)
  finally show ?thesis .
qed

lemma refine_results_step:
  assumes "wf_db J db"
  shows "\<exists>ss. getSessionResults J db sid = Inr ss
        \<and> map nctIdOf ss = sessionIds db sid
        \<and> ss = List.map_filter (resolve J db) (sessionIds db sid)
        \<and> sessionIds (snd (refine_results J db sid f)) sid = map nctIdOf (filterStudies ss f)
        \<and> (\<forall>sid'. sid' \<noteq> sid \<longrightarrow>
             sessionIds (snd (refine_results J db sid f)) sid' = sessionIds db sid')
        \<and> studies (snd (refine_results J db sid f)) = studies db
        \<and> search_sessions (snd (refine_results J db sid f)) = search_sessions db
        \<and> (ss \<noteq> [] \<longrightarrow> fst (refine_results J db sid f)
             = \<lparr>text' = ''Filtered to '' @ numberToString (int (length (filterStudies ss f)))
                   @ '' studies (from '' @ numberToString (int (length ss))
                   @ '')'' @ newline @ newline @ formatStudyList (filterStudies ss f) 10,
                isError = False\<rparr>)
        \<and> (ss = [] \<longrightarrow> refine_results J db sid f
             = (\<lparr>text' = ''Session '' @ sid @ '' not found or has no results.'',
                 isError = False\<rparr>, db))"
proof -
  from getSessionResults_wf [OF assms, of sid] obtain ss where
    ss: "getSessionResults J db sid = Inr ss" "map nctIdOf ss = sessionIds db sid"
      "ss = List.map_filter (resolve J db) (sessionIds db sid)"
    by blast
  show ?thesis
  proof (cases "ss = []")
    case True
    with ss have "refine_results J db sid f
             = (\<lparr>text' = ''Session '' @ sid @ '' not found or has no results.'',
                 isError = False\<rparr>, db)"
      by (simp add: refine_results_def)
    moreover have "sessionIds db sid = []" using True ss(2) by simp
    ultimately show ?thesis using ss True by (simp add: filterStudies_def)
  next
    case False
    let ?ks = "map nctIdOf (filterStudies ss f)"
    let ?db0 = "db\<lparr>session_results := filter (\<lambda>sr. fst sr \<noteq> sid) (session_results db)\<rparr>"
    let ?db1 = "db\<lparr>session_results :=
                  filter (\<lambda>sr. fst sr \<noteq> sid) (session_results db) @ map (Pair sid) ?ks\<rparr>"
    have "distinct (map nctIdOf ss)"
      using sessionIds_distinct [of db sid] assms ss(2) by (simp add: wf_db_def)
    then have dist: "distinct ?ks"
      unfolding filterStudies_def by (rule distinct_map_filter)
    have mem: "set ?ks \<subseteq> set (sessionIds db sid)"
      unfolding ss(2) [symmetric] filterStudies_def by auto
    have rows: "(sid, k) \<in> set (session_results db)" if "k \<in> set (sessionIds db sid)" for k
      using that by (auto simp: sessionIds_def)
    from False ss(2) obtain k0 where "k0 \<in> set (sessionIds db sid)"
      by (cases "sessionIds db sid") auto
    then have "(sid, k0) \<in> set (session_results db)" by (rule rows)
    with assms have sess: "search_sessions db sid \<noteq> None"
      unfolding wf_db_def by fastforce
    have fk: "studies db k \<noteq> None" if "k \<in> set ?ks" for k
    proof -
      from that mem have "(sid, k) \<in> set (session_results db)" by (auto intro: rows)
      with assms show ?thesis unfolding wf_db_def by fastforce
    qed
    have "insertResults ?db0 sid ?ks
          = (None, ?db0\<lparr>session_results := session_results ?db0 @ map (Pair sid) ?ks\<rparr>)"
    proof (rule insertResults_ok)
      show "search_sessions ?db0 sid \<noteq> None" using sess by simp
      show "distinct ?ks" by (rule dist)
      show "\<forall>k \<in> set ?ks. studies ?db0 k \<noteq> None \<and> (sid, k) \<notin> set (session_results ?db0)"
        using fk by auto
    qed
    then have upd: "updateSessionResults db sid ?ks = (None, ?db1)"
      by (simp add: updateSessionResults_def)
    have res: "refine_results J db sid f
        = (\<lparr>text' = ''Filtered to '' @ numberToString (int (length (filterStudies ss f)))
                   @ '' studies (from '' @ numberToString (int (length ss))
                   @ '')'' @ newline @ newline @ formatStudyList (filterStudies ss f) 10,
             isError = False\<rparr>, ?db1)"
      using ss(1) False upd by (simp add: refine_results_def Let_def)
    have ids: "sessionIds ?db1 sid' = (if sid' = sid then ?ks else sessionIds db sid')" for sid'
      by (rule sessionIds_replace)
    show ?thesis
      using ss False res ids by simp
  qed
qed

lemma in_set_map_filter:
  "y \<in> set (List.map_filter g xs) \<longleftrightarrow> (\<exists>x \<in> set xs. g x = Some y)"
  by (induction xs) (auto split: option.splits)

lemma resolve_nctIdOf:
  assumes "wf_db J db" and "resolve J db k = Some study"
  shows "nctIdOf study = k"
proof -
  from assms(2) obtain row where row: "studies db k = Some row"
    by (auto simp: resolve_def getStudy_def split: option.splits)
  from wf_db_resolve [OF assms(1) row] assms(2) show ?thesis by auto
qed

lemma refine_results_ids:
  assumes "wf_db J db"
  shows "set (sessionIds (snd (refine_results J db sid f)) sid)
           = {k \<in> set (sessionIds db sid). \<exists>study. resolve J db k = Some study \<and> matches study f}"
    and "length (sessionIds (snd (refine_results J db sid f)) sid) \<le> length (sessionIds db sid)"
proof -
  from refine_results_step [OF assms, of sid f] obtain ss where
    ss: "map nctIdOf ss = sessionIds db sid"
      "ss = List.map_filter (resolve J db) (sessionIds db sid)"
      "sessionIds (snd (refine_results J db sid f)) sid = map nctIdOf (filterStudies ss f)"
    by blast
  have in_ss: "study \<in> set ss \<longleftrightarrow> (\<exists>k \<in> set (sessionIds db sid). resolve J db k = Some study)"
    for study
    unfolding ss(2) by (rule in_set_map_filter)
  show "set (sessionIds (snd (refine_results J db sid f)) sid)
           = {k \<in> set (sessionIds db sid). \<exists>study. resolve J db k = Some study \<and> matches study f}"
  proof (intro set_eqI iffI)
    fix k
    assume "k \<in> set (sessionIds (snd (refine_results J db sid f)) sid)"
    then obtain study where st: "study \<in> set ss" "matches study f" "k = nctIdOf study"
      unfolding ss(3) filterStudies_def by auto
    from st(1) obtain k' where k': "k' \<in> set (sessionIds db sid)" "resolve J db k' = Some study"
      unfolding in_ss by blast
    from resolve_nctIdOf [OF assms k'(2)] st(3) have "k = k'" by simp
    with k' st(2)
    show "k \<in> {k \<in> set (sessionIds db sid). \<exists>study. resolve J db k = Some study \<and> matches study f}"
      by auto
  next
    fix k
    assume "k \<in> {k \<in> set (sessionIds db sid). \<exists>study. resolve J db k = Some study \<and> matches study f}"
    then obtain study where st: "k \<in> set (sessionIds db sid)" "resolve J db k = Some study"
      "matches study f" by auto
    then have "study \<in> set ss" unfolding in_ss by blast
    moreover have "nctIdOf study = k" using resolve_nctIdOf [OF assms st(2)] .
    ultimately show "k \<in> set (sessionIds (snd (refine_results J db sid f)) sid)"
      unfolding ss(3) filterStudies_def using st(3) by force
  qed
  have "length (map nctIdOf (filterStudies ss f)) \<le> length (map nctIdOf ss)"
    by (simp add: filterStudies_def)
  then show "length (sessionIds (snd (refine_results J db sid f)) sid) \<le> length (sessionIds db sid)"
    unfolding ss(3) ss(1) .
qed

lemma refine_many_narrows:
  assumes "wf_db J db"
  shows "wf_db J (refine_many J db sid fs)
       \<and> set (sessionIds (refine_many J db sid fs) sid) \<subseteq> set (sessionIds db sid)
       \<and> length (sessionIds (refine_many J db sid fs) sid) \<le> length (sessionIds db sid)"
  using assms
proof (induction fs arbitrary: db)
  case Nil
  then show ?case by (simp add: refine_many_def)
next
  case (Cons f fs)
  let ?db' = "snd (refine_results J db sid f)"
  have wf': "wf_db J ?db'" using Cons.prems by (rule refine_results_wf)
  have step: "set (sessionIds ?db' sid) \<subseteq> set (sessionIds db sid)"
    "length (sessionIds ?db' sid) \<le> length (sessionIds db sid)"
    using refine_results_ids [OF Cons.prems, of sid f] by auto
  have unfold: "refine_many J db sid (f # fs) = refine_many J ?db' sid fs"
    by (simp add: refine_many_def)
  from Cons.IH [OF wf'] step show ?case
    unfolding unfold by auto
qed

lemma getStudy_upsertStudy:
  "getStudy J (upsertStudy J db study) k
     = (if k = nctIdOf study
        then (case JSON_parse J (JSON_stringify J study) of
                Inr s \<Rightarrow> Inr (Some s) | Inl e \<Rightarrow> Inl e)
        else getStudy J db k)"
  by (simp add: getStudy_def upsertStudy_def raw_json_studyRow)

lemma numberToString_0:
  "numberToString 0 = ''0''"
  by (simp add: numberToString_def digitChar_def toStringRadix.simps)

lemma formatStudyList_empty:
  "formatStudyList [] n = ''Found 0 studies'' @ newline @ newline"
  by (simp add: formatStudyList_def numberToString_0)

text \<open>The example store, evaluated.\<close>

lemma nctIdOf_examples:
  "nctIdOf (minimalStudy n) = n" "nctIdOf (designedStudy n) = n" "nctIdOf updatedStudy = ''NCT1''"
  by (simp_all add: nctIdOf_def minimalStudy_def designedStudy_def updatedStudy_def)

lemma studies_distinct:
  "minimalStudy ''NCT1'' \<noteq> designedStudy ''NCT2''"
  "minimalStudy ''NCT1'' \<noteq> updatedStudy"
  "designedStudy ''NCT2'' \<noteq> updatedStudy"
  by (simp_all add: minimalStudy_def designedStudy_def updatedStudy_def)

lemma studyJSON_stringify:
  "JSON_stringify studyJSON (minimalStudy ''NCT1'')
     = ''{\"protocolSection\":{\"identificationModule\":{\"nctId\":\"NCT1\"}}}''"
  "JSON_stringify studyJSON (designedStudy ''NCT2'')
     = ''{\"protocolSection\":{\"identificationModule\":{\"nctId\":\"NCT2\"}}}''"
  "JSON_stringify studyJSON updatedStudy
     = ''{\"protocolSection\":{\"identificationModule\":{\"nctId\":\"NCT1\"}},\"hasResults\":true}''"
  using studies_distinct by (simp_all add: studyJSON_def tableJSON_def)

lemma studyJSON_parse:
  "JSON_parse studyJSON ''{\"protocolSection\":{\"identificationModule\":{\"nctId\":\"NCT1\"}}}''
     = Inr (minimalStudy ''NCT1'')"
  "JSON_parse studyJSON ''{\"protocolSection\":{\"identificationModule\":{\"nctId\":\"NCT2\"}}}''
     = Inr (designedStudy ''NCT2'')"
  "JSON_parse studyJSON
     ''{\"protocolSection\":{\"identificationModule\":{\"nctId\":\"NCT1\"}},\"hasResults\":true}''
     = Inr updatedStudy"
  by (simp_all add: studyJSON_def tableJSON_def)

lemma studyJSON_roundtrip:
  "JSON_parse studyJSON (JSON_stringify studyJSON (minimalStudy ''NCT1''))
     = Inr (minimalStudy ''NCT1'')"
  "JSON_parse studyJSON (JSON_stringify studyJSON (designedStudy ''NCT2''))
     = Inr (designedStudy ''NCT2'')"
  "JSON_parse studyJSON (JSON_stringify studyJSON updatedStudy) = Inr updatedStudy"
  by (simp_all add: studyJSON_stringify studyJSON_parse)

lemma storedDb_eval:
  "storedDb = \<lparr> studies = [''NCT1'' \<mapsto> studyRow studyJSON (minimalStudy ''NCT1''),
                            ''NCT2'' \<mapsto> studyRow studyJSON (designedStudy ''NCT2'')],
                search_sessions = Map.empty, session_results = [] \<rparr>"
  by (simp add: storedDb_def upsertStudy_def emptyDb_def nctIdOf_examples)

lemma exampleParams_text:
  "serializeJSONProperty None (JObj exampleParams)
     = Some ''{\"pageSize\":100,\"condition\":\"diabetes\"}''"
  by (simp add: exampleParams_def quoteJSONString_def quoteJSONChar_def numberToString_def
      digitChar_def toStringRadix.simps)

lemma exampleDb_eval:
  "exampleDb = \<lparr> studies = [''NCT1'' \<mapsto> studyRow studyJSON (minimalStudy ''NCT1''),
                            ''NCT2'' \<mapsto> studyRow studyJSON (designedStudy ''NCT2'')],
                 search_sessions =
                   [''session_1'' \<mapsto> ''{\"pageSize\":100,\"condition\":\"diabetes\"}'',
                    ''session_0'' \<mapsto> ''{\"pageSize\":100,\"condition\":\"diabetes\"}''],
                 session_results = [(''session_1'', ''NCT1''), (''session_1'', ''NCT2'')] \<rparr>"
  unfolding exampleDb_def storedDb_eval createSession_def exampleParams_text
  by (simp add: insertResult_def)

lemma wf_storedDb: "wf_db studyJSON storedDb"
  unfolding storedDb_def
  by (intro upsertStudy_wf wf_emptyDb studyJSON_roundtrip)

lemma wf_exampleDb: "wf_db studyJSON exampleDb"
  unfolding exampleDb_def
  by (intro createSession_wf wf_storedDb)

lemma exampleDb_sessions:
  "sessionIds exampleDb ''session_1'' = [''NCT1'', ''NCT2'']"
  "sessionIds exampleDb ''session_0'' = []"
  "sessionIds exampleDb ''session_x'' = []"
  "search_sessions exampleDb ''session_0'' \<noteq> None"
  "search_sessions exampleDb ''session_x'' = None"
  by (simp_all add: exampleDb_eval sessionIds_def)

lemma exampleDb_results:
  "getSessionResults studyJSON exampleDb ''session_1''
     = Inr [minimalStudy ''NCT1'', designedStudy ''NCT2'']"
  by (simp add: getSessionResults_def exampleDb_eval raw_json_studyRow studyJSON_stringify
      studyJSON_parse)

lemma exampleDb_resolve:
  "resolve studyJSON exampleDb ''NCT1'' = Some (minimalStudy ''NCT1'')"
  "resolve studyJSON exampleDb ''NCT2'' = Some (designedStudy ''NCT2'')"
  by (simp_all add: resolve_def getStudy_def exampleDb_eval raw_json_studyRow
      studyJSON_stringify studyJSON_parse)

lemma example_matches:
  "\<not> matches (minimalStudy ''NCT1'') (noFilters\<lparr>hasResults_f := Some True\<rparr>)"
  "matches (designedStudy ''NCT2'') (noFilters\<lparr>hasResults_f := Some True\<rparr>)"
  "\<not> matches (minimalStudy ''NCT1'') (noFilters\<lparr>sex_f := Some ''MALE''\<rparr>)"
  "\<not> matches (designedStudy ''NCT2'') (noFilters\<lparr>sex_f := Some ''MALE''\<rparr>)"
  by (simp_all add: matches_def by_defs of_defs example_defs case_defs)


subsection \<open>The raw payload\<close>

text \<open>
  Claim C8. For every study that \<^verbatim>\<open>JSON.parse\<close> recovers from its
  \<^verbatim>\<open>JSON.stringify\<close> text (a structurally valid study), \<open>upsertStudy\<close> followed by
  \<open>getStudy\<close> on its identifier returns the study: the column \<open>raw_json\<close> holds the
  text of the whole study. The same holds after a second upsert of the same study; after an
  upsert of an updated study with the same identifier \<open>getStudy\<close> returns the updated
  one; an upsert of a study with another identifier changes nothing. \<open>getStudy\<close> reads
  \<open>raw_json\<close> only: whatever the other columns of the row hold, it returns the study.
\<close>

theorem upsertStudy_getStudy_roundtrip:
  assumes "JSON_parse J (JSON_stringify J study) = Inr study"
  shows "getStudy J (upsertStudy J db study) (nctIdOf study) = Inr (Some study)
       \<and> map_option raw_json (studies (upsertStudy J db study) (nctIdOf study))
           = Some (JSON_stringify J study)
       \<and> getStudy J (upsertStudy J (upsertStudy J db study) study) (nctIdOf study)
           = Inr (Some study)
       \<and> (nctIdOf study' = nctIdOf study
            \<and> JSON_parse J (JSON_stringify J study') = Inr study' \<longrightarrow>
            getStudy J (upsertStudy J (upsertStudy J db study) study') (nctIdOf study)
              = Inr (Some study'))
       \<and> (nctIdOf study' \<noteq> nctIdOf study \<longrightarrow>
            getStudy J (upsertStudy J (upsertStudy J db study) study') (nctIdOf study)
              = Inr (Some study))
       \<and> (\<forall>(row::StudyRow) k. raw_json row = JSON_stringify J study \<longrightarrow>
            getStudy J (db\<lparr>studies := (studies db)(k \<mapsto> row)\<rparr>) k = Inr (Some study))"
proof (intro conjI impI allI)
  show "map_option raw_json (studies (upsertStudy J db study) (nctIdOf study))
           = Some (JSON_stringify J study)"
    by (simp add: upsertStudy_def raw_json_studyRow)
next
  fix row :: StudyRow and k
  assume "raw_json row = JSON_stringify J study"
  with assms show "getStudy J (db\<lparr>studies := (studies db)(k \<mapsto> row)\<rparr>) k = Inr (Some study)"
    by (simp add: getStudy_def)
qed (use assms in \<open>simp_all add: getStudy_upsertStudy\<close>)

text \<open>
  The first study after one upsert, after an upsert of its updated version, and after the
  upsert of the second study.
\<close>

theorem upsertStudy_getStudy_roundtrip_witness:
  "JSON_parse studyJSON (JSON_stringify studyJSON (minimalStudy ''NCT1''))
     = Inr (minimalStudy ''NCT1'')
   \<and> getStudy studyJSON (upsertStudy studyJSON emptyDb (minimalStudy ''NCT1'')) ''NCT1''
       = Inr (Some (minimalStudy ''NCT1''))
   \<and> getStudy studyJSON (upsertStudy studyJSON
         (upsertStudy studyJSON emptyDb (minimalStudy ''NCT1'')) updatedStudy) ''NCT1''
       = Inr (Some updatedStudy)
   \<and> getStudy studyJSON storedDb ''NCT1'' = Inr (Some (minimalStudy ''NCT1''))"
proof -
  note r = studyJSON_roundtrip(1)
  have "nctIdOf updatedStudy = nctIdOf (minimalStudy ''NCT1'')
        \<and> JSON_parse studyJSON (JSON_stringify studyJSON updatedStudy) = Inr updatedStudy"
    "nctIdOf (designedStudy ''NCT2'') \<noteq> nctIdOf (minimalStudy ''NCT1'')"
    by (simp_all add: nctIdOf_examples studyJSON_roundtrip)
  then show ?thesis
    using r upsertStudy_getStudy_roundtrip [OF r, of emptyDb updatedStudy]
      upsertStudy_getStudy_roundtrip [OF r, of emptyDb "designedStudy ''NCT2''"]
    by (simp add: nctIdOf_examples storedDb_def)
qed


subsection \<open>Refinement of a session\<close>

text \<open>
  Claim C2. In a store that satisfies its invariant (every store that the operations
  produce does: \<open>reachable_wf\<close>), a refine call leaves as the identifier set of the session exactly
  those of its identifiers whose resolved record satisfies the criteria. So the new set is
  a subset of the old one and is not larger, the table of studies is unchanged, the
  invariant holds again, and after any sequence of refinements the set is a subset of the
  first one and not larger. \<open>refine_results\<close> is a function of the store, the session
  and the criteria: it has no access to the source client.
\<close>

theorem refine_narrows_session:
  assumes "wf_db J db"
  shows "set (sessionIds (snd (refine_results J db sid f)) sid)
           = {k \<in> set (sessionIds db sid).
                \<exists>study. resolve J db k = Some study \<and> matches study f}
       \<and> set (sessionIds (snd (refine_results J db sid f)) sid) \<subseteq> set (sessionIds db sid)
       \<and> length (sessionIds (snd (refine_results J db sid f)) sid)
           \<le> length (sessionIds db sid)
       \<and> distinct (sessionIds (snd (refine_results J db sid f)) sid)
       \<and> studies (snd (refine_results J db sid f)) = studies db
       \<and> wf_db J (snd (refine_results J db sid f))
       \<and> set (sessionIds (refine_many J db sid fs) sid) \<subseteq> set (sessionIds db sid)
       \<and> length (sessionIds (refine_many J db sid fs) sid) \<le> length (sessionIds db sid)"
proof -
  have wf': "wf_db J (snd (refine_results J db sid f))"
    using assms by (rule refine_results_wf)
  then have "distinct (sessionIds (snd (refine_results J db sid f)) sid)"
    by (simp add: wf_db_def sessionIds_distinct)
  moreover have "studies (snd (refine_results J db sid f)) = studies db"
    using refine_results_step [OF assms, of sid f] by blast
  ultimately show ?thesis
    using refine_results_ids [OF assms, of sid f] refine_many_narrows [OF assms, of sid fs] wf'
    by auto
qed

text \<open>
  The session \<open>session_1\<close> of the example store holds two studies; refinement by
  \<open>hasResults = true\<close> leaves the second.
\<close>

theorem refine_narrows_session_witness:
  "wf_db studyJSON exampleDb
   \<and> sessionIds exampleDb ''session_1'' = [''NCT1'', ''NCT2'']
   \<and> set (sessionIds (snd (refine_results studyJSON exampleDb ''session_1''
          (noFilters\<lparr>hasResults_f := Some True\<rparr>))) ''session_1'') = {''NCT2''}
   \<and> length (sessionIds (refine_many studyJSON exampleDb ''session_1''
          [noFilters\<lparr>hasResults_f := Some True\<rparr>, noFilters\<lparr>sex_f := Some ''MALE''\<rparr>])
          ''session_1'') \<le> 2"
proof -
  have "{k \<in> set (sessionIds exampleDb ''session_1'').
          \<exists>study. resolve studyJSON exampleDb k = Some study
                \<and> matches study (noFilters\<lparr>hasResults_f := Some True\<rparr>)} = {''NCT2''}"
    using exampleDb_resolve example_matches by (auto simp: exampleDb_sessions)
  then show ?thesis
    using wf_exampleDb exampleDb_sessions(1)
      refine_narrows_session [OF wf_exampleDb, of "''session_1''"
        "noFilters\<lparr>hasResults_f := Some True\<rparr>"
        "[noFilters\<lparr>hasResults_f := Some True\<rparr>, noFilters\<lparr>sex_f := Some ''MALE''\<rparr>]"]
    by simp
qed

subsection \<open>Unknown session and empty result\<close>

text \<open>
  Claim C9 as stated fails: the handler tests \<^verbatim>\<open>studies.length === 0\<close> only, so an
  existing session whose identifier set is already empty (here \<open>session_0\<close> of the
  example store, created by a search without results) gets the result that the same token
  gets in a store where no such session exists: \<open>not found or has no results\<close>.
\<close>

theorem refine_empty_session_counterexample:
  "search_sessions exampleDb ''session_0'' \<noteq> None
   \<and> search_sessions storedDb ''session_0'' = None
   \<and> fst (refine_results studyJSON exampleDb ''session_0'' noFilters)
       = \<lparr>text' = ''Session session_0 not found or has no results.'', isError = False\<rparr>
   \<and> fst (refine_results studyJSON storedDb ''session_0'' noFilters)
       = fst (refine_results studyJSON exampleDb ''session_0'' noFilters)"
  by (simp add: refine_results_def getSessionResults_def exampleDb_eval storedDb_eval)

text \<open>
  Claim C9, amended. Refine on an unknown session token returns the message
  \<open>Session ... not found or has no results.\<close> and leaves the store as it is. Refine on a
  session whose identifier set is not empty and whose criteria match none of its records
  returns \<open>Filtered to 0 studies (from N)\<close> with an empty list, not flagged as an error,
  empties the set, and differs from the not-found message. Refine on a session whose
  identifier set is empty returns the not-found message.
\<close>

theorem refine_not_found_or_no_match:
  assumes "wf_db J db"
  shows "(search_sessions db sid = None \<longrightarrow>
            refine_results J db sid f
              = (\<lparr>text' = ''Session '' @ sid @ '' not found or has no results.'',
                  isError = False\<rparr>, db))
       \<and> (sessionIds db sid \<noteq> []
            \<and> {k \<in> set (sessionIds db sid).
                 \<exists>study. resolve J db k = Some study \<and> matches study f} = {} \<longrightarrow>
            fst (refine_results J db sid f)
              = \<lparr>text' = ''Filtered to 0 studies (from ''
                    @ numberToString (int (length (sessionIds db sid))) @ '')''
                    @ newline @ newline @ ''Found 0 studies'' @ newline @ newline,
                 isError = False\<rparr>
            \<and> sessionIds (snd (refine_results J db sid f)) sid = []
            \<and> fst (refine_results J db sid f)
                \<noteq> \<lparr>text' = ''Session '' @ sid @ '' not found or has no results.'',
                    isError = False\<rparr>)
       \<and> (sessionIds db sid = [] \<longrightarrow>
            refine_results J db sid f
              = (\<lparr>text' = ''Session '' @ sid @ '' not found or has no results.'',
                  isError = False\<rparr>, db))"
proof -
  from refine_results_step [OF assms, of sid f] obtain ss where
    ss: "map nctIdOf ss = sessionIds db sid"
      "sessionIds (snd (refine_results J db sid f)) sid = map nctIdOf (filterStudies ss f)"
      "ss \<noteq> [] \<longrightarrow> fst (refine_results J db sid f)
             = \<lparr>text' = ''Filtered to '' @ numberToString (int (length (filterStudies ss f)))
                   @ '' studies (from '' @ numberToString (int (length ss))
                   @ '')'' @ newline @ newline @ formatStudyList (filterStudies ss f) 10,
                isError = False\<rparr>"
      "ss = [] \<longrightarrow> refine_results J db sid f
             = (\<lparr>text' = ''Session '' @ sid @ '' not found or has no results.'',
                 isError = False\<rparr>, db)"
    by blast
  have len: "length ss = length (sessionIds db sid)"
    using ss(1) by (metis length_map)
  have empty: "refine_results J db sid f
              = (\<lparr>text' = ''Session '' @ sid @ '' not found or has no results.'',
                  isError = False\<rparr>, db)" if "sessionIds db sid = []"
    using that ss(1) ss(4) by simp
  have unknown: "sessionIds db sid = []" if "search_sessions db sid = None"
  proof (rule ccontr)
    assume "sessionIds db sid \<noteq> []"
    then obtain k where "k \<in> set (sessionIds db sid)"
      by (cases "sessionIds db sid") auto
    then have "(sid, k) \<in> set (session_results db)"
      by (auto simp: sessionIds_def)
    with assms that show False
      unfolding wf_db_def by fastforce
  qed
  have zero: "fst (refine_results J db sid f)
              = \<lparr>text' = ''Filtered to 0 studies (from ''
                    @ numberToString (int (length (sessionIds db sid))) @ '')''
                    @ newline @ newline @ ''Found 0 studies'' @ newline @ newline,
                 isError = False\<rparr>
            \<and> sessionIds (snd (refine_results J db sid f)) sid = []"
    if ne: "sessionIds db sid \<noteq> []"
      and none: "{k \<in> set (sessionIds db sid).
                 \<exists>study. resolve J db k = Some study \<and> matches study f} = {}"
  proof -
    have "set (sessionIds (snd (refine_results J db sid f)) sid) = {}"
      using refine_results_ids(1) [OF assms, of sid f] none by simp
    then have e: "sessionIds (snd (refine_results J db sid f)) sid = []" by simp
    with ss(2) have "filterStudies ss f = []" by simp
    moreover have "ss \<noteq> []" using ne ss(1) by auto
    ultimately show ?thesis
      using ss(3) e len
      by (simp add: formatStudyList_empty numberToString_0)
  qed
  show ?thesis
  proof (intro conjI impI)
    assume "search_sessions db sid = None"
    then show "refine_results J db sid f
              = (\<lparr>text' = ''Session '' @ sid @ '' not found or has no results.'',
                  isError = False\<rparr>, db)"
      by (intro empty unknown)
  next
    assume a: "sessionIds db sid \<noteq> []
            \<and> {k \<in> set (sessionIds db sid).
                 \<exists>study. resolve J db k = Some study \<and> matches study f} = {}"
    from zero a show t: "fst (refine_results J db sid f)
              = \<lparr>text' = ''Filtered to 0 studies (from ''
                    @ numberToString (int (length (sessionIds db sid))) @ '')''
                    @ newline @ newline @ ''Found 0 studies'' @ newline @ newline,
                 isError = False\<rparr>" by blast
    from zero a show "sessionIds (snd (refine_results J db sid f)) sid = []" by blast
    show "fst (refine_results J db sid f)
                \<noteq> \<lparr>text' = ''Session '' @ sid @ '' not found or has no results.'',
                    isError = False\<rparr>"
      unfolding t by simp
  next
    assume "sessionIds db sid = []"
    then show "refine_results J db sid f
              = (\<lparr>text' = ''Session '' @ sid @ '' not found or has no results.'',
                  isError = False\<rparr>, db)"
      by (rule empty)
  qed
qed

text \<open>The unknown token, the session with two studies under criteria that match none, and the
  session without results.\<close>

theorem refine_not_found_or_no_match_witness:
  "wf_db studyJSON exampleDb
   \<and> search_sessions exampleDb ''session_x'' = None
   \<and> refine_results studyJSON exampleDb ''session_x'' (noFilters\<lparr>sex_f := Some ''MALE''\<rparr>)
       = (\<lparr>text' = ''Session session_x not found or has no results.'', isError = False\<rparr>,
          exampleDb)
   \<and> sessionIds exampleDb ''session_1'' = [''NCT1'', ''NCT2'']
   \<and> fst (refine_results studyJSON exampleDb ''session_1'' (noFilters\<lparr>sex_f := Some ''MALE''\<rparr>))
       = \<lparr>text' = ''Filtered to 0 studies (from 2)'' @ newline @ newline
                   @ ''Found 0 studies'' @ newline @ newline,
          isError = False\<rparr>
   \<and> sessionIds (snd (refine_results studyJSON exampleDb ''session_1''
          (noFilters\<lparr>sex_f := Some ''MALE''\<rparr>))) ''session_1'' = []
   \<and> sessionIds exampleDb ''session_0'' = []
   \<and> refine_results studyJSON exampleDb ''session_0'' (noFilters\<lparr>sex_f := Some ''MALE''\<rparr>)
       = (\<lparr>text' = ''Session session_0 not found or has no results.'', isError = False\<rparr>,
          exampleDb)"
proof -
  have none: "{k \<in> set (sessionIds exampleDb ''session_1'').
          \<exists>study. resolve studyJSON exampleDb k = Some study
                \<and> matches study (noFilters\<lparr>sex_f := Some ''MALE''\<rparr>)} = {}"
    using exampleDb_resolve example_matches by (auto simp: exampleDb_sessions)
  have two: "numberToString (int (length (sessionIds exampleDb ''session_1''))) = ''2''"
    by (simp add: exampleDb_sessions numberToString_def digitChar_def toStringRadix.simps)
  show ?thesis
    using wf_exampleDb exampleDb_sessions none two
      refine_not_found_or_no_match [OF wf_exampleDb, of "''session_x''"
        "noFilters\<lparr>sex_f := Some ''MALE''\<rparr>"]
      refine_not_found_or_no_match [OF wf_exampleDb, of "''session_1''"
        "noFilters\<lparr>sex_f := Some ''MALE''\<rparr>"]
      refine_not_found_or_no_match [OF wf_exampleDb, of "''session_0''"
        "noFilters\<lparr>sex_f := Some ''MALE''\<rparr>"]
    by simp
qed

end
